theory Spec2Isabelle
  imports Main
begin

section \<open>JavaScript values of the program\<close>

text \<open>
  The values the program handles are JSON documents (what \<^verbatim>\<open>require\<close> of a
  \<^verbatim>\<open>package.json\<close> and \<^verbatim>\<open>JSON.parse\<close> return) and the values of the parsed command
  line. \<open>undefined\<close> is \<open>None\<close>. Numbers are carried around unchanged and only tested
  against zero, so an integer stands for them.
\<close>

datatype json =
    JNull
  | JBool bool
  | JNum int
  | JStr string
  | JArr "json list"
  | JObj "(string \<times> json) list"

type_synonym jsval = "json option"

text \<open>The own properties of an object, in the order JavaScript enumerates them; a
  property of an object under construction may hold \<open>undefined\<close>.\<close>

type_synonym props = "(string \<times> jsval) list"

datatype js_error =
    TypeError
  | SyntaxError
  | ExecaError string
  | IOError string
  | Error string

text \<open>JavaScript truthiness (\<^verbatim>\<open>!x\<close>, \<^verbatim>\<open>x && y\<close>, \<^verbatim>\<open>x || y\<close>, \<^verbatim>\<open>x ? a : b\<close>).\<close>

fun truthy :: "jsval \<Rightarrow> bool" where
  "truthy None = False"
| "truthy (Some JNull) = False"
| "truthy (Some (JBool b)) = b"
| "truthy (Some (JNum n)) = (n \<noteq> 0)"
| "truthy (Some (JStr s)) = (s \<noteq> [])"
| "truthy (Some (JArr xs)) = True"
| "truthy (Some (JObj ms)) = True"

text \<open>
  Reading a named property \<^verbatim>\<open>v.k\<close>, for the names this program reads (\<open>keywords\<close>,
  \<open>scripts\<close>, \<open>prepare\<close>, \<dots>): none of them is a property of a string, an array, a
  number or a boolean, nor of \<^verbatim>\<open>Object.prototype\<close>. Reading a property of \<open>null\<close> or
  \<open>undefined\<close> throws.
\<close>

fun get_prop :: "jsval \<Rightarrow> string \<Rightarrow> js_error + jsval" where
  "get_prop None k = Inl TypeError"
| "get_prop (Some JNull) k = Inl TypeError"
| "get_prop (Some (JObj ms)) k = Inr (map_of ms k)"
| "get_prop (Some v) k = Inr None"

subsection \<open>Property order\<close>

text \<open>
  An object lists its own keys with the array indices first (the canonical decimal
  numerals below \<open>2^32 - 1\<close>), in ascending order, and then the other names in the order
  they were created.
\<close>

definition is_digit :: "char \<Rightarrow> bool" where
  "is_digit c = (48 \<le> (of_char c :: nat) \<and> (of_char c :: nat) \<le> 57)"

definition dec_val :: "string \<Rightarrow> nat" where
  "dec_val s = foldl (\<lambda>n c. 10 * n + (of_char c - 48)) 0 s"

definition array_index :: "string \<Rightarrow> nat option" where
  "array_index s =
     (if s \<noteq> [] \<and> list_all is_digit s \<and> (s = ''0'' \<or> hd s \<noteq> CHR ''0'')
         \<and> dec_val s < 4294967295
      then Some (dec_val s) else None)"

function show_nat :: "nat \<Rightarrow> string" where
  "show_nat n =
     (if n < 10 then [char_of (48 + n)]
      else show_nat (n div 10) @ [char_of (48 + n mod 10)])"
  by pat_completeness auto
termination
  by (relation "measure (\<lambda>n. n)") auto

fun insert_index :: "nat \<Rightarrow> string \<Rightarrow> jsval \<Rightarrow> props \<Rightarrow> props" where
  "insert_index i k v [] = [(k, v)]"
| "insert_index i k v ((k', v') # ps) =
     (case array_index k' of
        Some j \<Rightarrow> if j < i then (k', v') # insert_index i k v ps
                  else (k, v) # (k', v') # ps
      | None \<Rightarrow> (k, v) # (k', v') # ps)"

text \<open>Creating (or overwriting) the data property \<open>k\<close> of an object.\<close>

definition define_property :: "props \<Rightarrow> string \<times> jsval \<Rightarrow> props" where
  "define_property ps kv =
     (if fst kv \<in> fst ` set ps
      then map (\<lambda>p. if fst p = fst kv then kv else p) ps
      else case array_index (fst kv) of
             Some i \<Rightarrow> insert_index i (fst kv) (snd kv) ps
           | None \<Rightarrow> ps @ [kv])"

text \<open>An object literal, or the target of a rest pattern: the properties are created
  one after the other.\<close>

definition object_of :: "props \<Rightarrow> props" where
  "object_of kvs = foldl define_property [] kvs"

text \<open>The own enumerable properties of a value, as a spread or a rest pattern sees
  them: those of an object, the elements of an array and the characters of a string
  under their indices, none for a number or a boolean.\<close>

definition indexed :: "json list \<Rightarrow> props" where
  "indexed xs = map (\<lambda>(i, x). (show_nat i, Some x)) (enumerate 0 xs)"

fun own_props :: "json \<Rightarrow> props" where
  "own_props (JObj ms) = map (\<lambda>(k, v). (k, Some v)) ms"
| "own_props (JArr xs) = indexed xs"
| "own_props (JStr s) = indexed (map (\<lambda>c. JStr [c]) s)"
| "own_props v = []"

text \<open>The document that \<^verbatim>\<open>JSON.stringify\<close> writes for an object: a property whose
  value is \<open>undefined\<close> is left out.\<close>

definition stringify_props :: "props \<Rightarrow> json" where
  "stringify_props ps = JObj (concat (map (\<lambda>(k, v). case v of None \<Rightarrow> [] | Some x \<Rightarrow> [(k, x)]) ps))"

section \<open>cleanProject: the manifest rewrite\<close>

text \<open>
  Lines 37 to 65 of \<^verbatim>\<open>createIndexApp.js\<close>: the two destructurings and the object
  handed to \<^verbatim>\<open>JSON.stringify\<close>. A rest pattern throws on \<open>null\<close> and \<open>undefined\<close>.
\<close>

definition well_known :: "string list" where
  "well_known = [''prepare'', ''start'', ''build'', ''test'']"

definition rest_of :: "jsval \<Rightarrow> js_error + props" where
  "rest_of scripts =
     (case scripts of
        None \<Rightarrow> Inl TypeError
      | Some JNull \<Rightarrow> Inl TypeError
      | Some v \<Rightarrow> Inr (object_of (filter (\<lambda>p. fst p \<notin> set well_known) (own_props v))))"

definition property :: "jsval \<Rightarrow> string \<Rightarrow> jsval" where
  "property scripts k = (case get_prop scripts k of Inl e \<Rightarrow> None | Inr v \<Rightarrow> v)"

definition cleanManifest :: "json \<Rightarrow> js_error + json" where
  "cleanManifest manifest =
     (case get_prop (Some manifest) ''scripts'' of
        Inl e \<Rightarrow> Inl e
      | Inr scripts \<Rightarrow>
         (case rest_of scripts of
            Inl e \<Rightarrow> Inl e
          | Inr otherScripts \<Rightarrow>
              Inr (stringify_props (object_of
                [(''scripts'', Some (stringify_props (object_of
                    ([(''prepare'', property scripts ''prepare''),
                      (''start'', property scripts ''start''),
                      (''build'', property scripts ''build''),
                      (''test'', property scripts ''test'')] @ otherScripts)))),
                 (''webDependencies'', property (Some manifest) ''webDependencies''),
                 (''dependencies'', property (Some manifest) ''dependencies''),
                 (''devDependencies'', property (Some manifest) ''devDependencies'')]))))"

section \<open>Effects\<close>

text \<open>
  Everything the program does to the outside is an effect; a run is the list of the
  effects it performed, in order, and how it ended. The text handed to the console is
  kept without the colour codes that \<^verbatim>\<open>kleur\<close> wraps around it.
\<close>

datatype stdio =
    Piped \<comment> \<open>no option given\<close>
  | All \<comment> \<open>\<^verbatim>\<open>all: true\<close>\<close>
  | Inherit \<comment> \<open>\<^verbatim>\<open>stdio: 'inherit'\<close>\<close>

datatype content =
    Text string
  | JSON_text json \<comment> \<open>\<^verbatim>\<open>JSON.stringify(doc, null, 2)\<close>\<close>

datatype effect =
    ConsoleLog string
  | ConsoleError string
  | CommandSync string \<comment> \<open>\<^verbatim>\<open>execa.commandSync(command)\<close>\<close>
  | Execa string "string list" "string option" stdio \<comment> \<open>file, arguments, cwd, output\<close>
  | MkdirSync string \<comment> \<open>\<^verbatim>\<open>recursive: true\<close>\<close>
  | WriteFile string content
  | Copy string string
  | RemoveSync string

text \<open>The steps that change the disk: the file system calls, and the package manager
  runs inside the target directory.\<close>

fun mutating :: "effect \<Rightarrow> bool" where
  "mutating (ConsoleLog s) = False"
| "mutating (ConsoleError s) = False"
| "mutating (CommandSync c) = False"
| "mutating (Execa f as d io) = (d \<noteq> None)"
| "mutating (MkdirSync p) = True"
| "mutating (WriteFile p c) = True"
| "mutating (Copy s d) = True"
| "mutating (RemoveSync p) = True"

fun is_copy :: "effect \<Rightarrow> bool" where
  "is_copy (Copy s d) = True"
| "is_copy e = False"

fun is_write :: "effect \<Rightarrow> bool" where
  "is_write (WriteFile p c) = True"
| "is_write e = False"

text \<open>The final install is the only subprocess that inherits the terminal.\<close>

fun is_final_install :: "effect \<Rightarrow> bool" where
  "is_final_install (Execa f as d Inherit) = True"
| "is_final_install e = False"

text \<open>A statement returns, ends the process (\<^verbatim>\<open>process.exit\<close>) or throws.\<close>

datatype 'a res = Ret 'a | Exit nat | Throw js_error

type_synonym 'a prog = "effect list \<times> 'a res"

definition ret :: "'a \<Rightarrow> 'a prog" where
  "ret a = ([], Ret a)"

definition exit :: "nat \<Rightarrow> 'a prog" where
  "exit n = ([], Exit n)"

definition throw :: "js_error \<Rightarrow> 'a prog" where
  "throw e = ([], Throw e)"

text \<open>\<open>emit\<close> is an effect that cannot fail (writing to the console); \<open>seq\<close> runs one
  statement after the other, and stops at the first that exits or throws.\<close>

definition emit :: "effect \<Rightarrow> unit prog" where
  "emit e = ([e], Ret ())"

definition seq :: "'a prog \<Rightarrow> ('a \<Rightarrow> 'b prog) \<Rightarrow> 'b prog" where
  "seq m f =
     (case snd m of
        Ret a \<Rightarrow> (fst m @ fst (f a), snd (f a))
      | Exit n \<Rightarrow> (fst m, Exit n)
      | Throw e \<Rightarrow> (fst m, Throw e))"

definition try_catch :: "'a prog \<Rightarrow> (js_error \<Rightarrow> 'a prog) \<Rightarrow> 'a prog" where
  "try_catch m h =
     (case snd m of
        Throw e \<Rightarrow> (fst m @ fst (h e), snd (h e))
      | Ret a \<Rightarrow> m
      | Exit n \<Rightarrow> m)"

definition if_then :: "bool \<Rightarrow> unit prog \<Rightarrow> unit prog" where
  "if_then b m = (if b then m else ret ())"

definition lift :: "js_error + 'a \<Rightarrow> 'a prog" where
  "lift x = (case x of Inl e \<Rightarrow> throw e | Inr a \<Rightarrow> ret a)"

section \<open>The environment of a run\<close>

text \<open>The object \<^verbatim>\<open>yargs(process.argv)\<close>; \<open>positional\<close> is its field \<^verbatim>\<open>_\<close>, which
  starts with the paths of \<^verbatim>\<open>node\<close> and of the script.\<close>

record args =
  template :: jsval
  useYarn :: jsval
  usePnpm :: jsval
  force :: jsval
  target :: jsval
  verbose :: jsval
  positional :: "jsval list"

text \<open>
  What the program reads from outside, and how each external call answers: \<open>fails\<close>
  says which calls throw (or reject) and with what, \<open>stdout_of\<close> is the output of a
  subprocess that succeeded. \<^verbatim>\<open>path.resolve\<close>, \<^verbatim>\<open>path.join\<close> and \<^verbatim>\<open>JSON.parse\<close> are
  Node's; \<open>require_template\<close> reads a manifest when the template is verified,
  \<open>require_target\<close> when the target is cleaned, after the copy.
\<close>

record world =
  yargs_argv :: args
  cwd :: string
  node_version :: string
  path_resolve :: "string \<Rightarrow> string \<Rightarrow> string"
  path_join :: "string list \<Rightarrow> string"
  existsSync :: "string \<Rightarrow> bool"
  fails :: "effect \<Rightarrow> js_error option"
  stdout_of :: "effect \<Rightarrow> string"
  JSON_parse :: "string \<Rightarrow> js_error + json"
  require_template :: "string \<Rightarrow> js_error + json"
  require_target :: "string \<Rightarrow> js_error + json"

text \<open>An external call that may fail. A call that fails is still part of the trace: it
  was made, and may have done part of its work.\<close>

definition perform :: "world \<Rightarrow> effect \<Rightarrow> unit prog" where
  "perform w e = ([e], case fails w e of None \<Rightarrow> Ret () | Some err \<Rightarrow> Throw err)"

section \<open>The program\<close>

definition errorLink :: string where
  "errorLink = ''https://github.com/indexorg/create-index-app/issues''"

definition logError :: "string \<Rightarrow> 'a prog" where
  "logError msg = seq (emit (ConsoleError msg)) (\<lambda>_. exit 1)"

definition printStep :: "string \<Rightarrow> string option \<Rightarrow> unit prog" where
  "printStep line subline =
     emit (ConsoleLog (line @ (case subline of Some s \<Rightarrow> if s \<noteq> [] then ''  '' @ s else [] | None \<Rightarrow> [])))"

definition hasPmInstalled :: "world \<Rightarrow> string \<Rightarrow> bool prog" where
  "hasPmInstalled w packageManager =
     try_catch
       (seq (perform w (CommandSync (packageManager @ '' --version''))) (\<lambda>_. ret True))
       (\<lambda>err. ret False)"

definition cleanProject :: "world \<Rightarrow> string \<Rightarrow> unit prog" where
  "cleanProject w dir =
     (let packageManifest = path_join w [dir, ''package.json''] in
      seq (perform w (RemoveSync (path_join w [dir, ''package-lock.json'']))) (\<lambda>_.
      seq (perform w (RemoveSync (path_join w [dir, ''node_modules'']))) (\<lambda>_.
      seq (perform w (RemoveSync (path_join w [dir, ''.gitignore'']))) (\<lambda>_.
      seq (perform w (RemoveSync (path_join w [dir, ''.npmignore'']))) (\<lambda>_.
      seq (perform w (RemoveSync (path_join w [dir, ''LICENSE'']))) (\<lambda>_.
      seq (lift (require_target w packageManifest)) (\<lambda>manifest.
      seq (lift (cleanManifest manifest)) (\<lambda>doc.
      perform w (WriteFile packageManifest (JSON_text doc))))))))))"

subsection \<open>verifyProjectTemplate\<close>

definition sentinel :: string where
  "sentinel = ''create-index-app--template''"

fun is_substring :: "string \<Rightarrow> string \<Rightarrow> bool" where
  "is_substring p [] = (p = [])"
| "is_substring p (c # cs) = (take (length p) (c # cs) = p \<or> is_substring p cs)"

text \<open>\<^verbatim>\<open>v.includes(s)\<close>: membership for an array, a substring test for a string; no
  other JSON value has a method of this name, and calling it throws.\<close>

fun js_includes :: "jsval \<Rightarrow> string \<Rightarrow> js_error + bool" where
  "js_includes (Some (JArr xs)) s = Inr (JStr s \<in> set xs)"
| "js_includes (Some (JStr t)) s = Inr (is_substring s t)"
| "js_includes v s = Inl TypeError"

text \<open>Lines 70 to 89: the keywords of the template, from its manifest when it is
  local, from the registry otherwise.\<close>

definition keywords_query :: "string \<Rightarrow> effect" where
  "keywords_query tmpl = Execa ''npm'' [''info'', tmpl, ''keywords'', ''--json''] None Piped"

definition templateKeywords :: "world \<Rightarrow> bool \<Rightarrow> string \<Rightarrow> string \<Rightarrow> jsval prog" where
  "templateKeywords w isLocal tmpl dir =
     (if isLocal then
        seq (lift (require_template w (path_join w [dir, ''package.json'']))) (\<lambda>manifest.
        lift (get_prop (Some manifest) ''keywords''))
      else
        try_catch
          (seq (perform w (keywords_query tmpl)) (\<lambda>_.
           seq (lift (JSON_parse w (stdout_of w (keywords_query tmpl)))) (\<lambda>v.
           ret (Some v))))
          (\<lambda>err.
           seq (emit (ConsoleLog [])) (\<lambda>_.
           seq (emit (ConsoleError
             (''Cannot verify external template safely. If you believe this is incorrect, create an issue here:\<newline>'' @ errorLink))) (\<lambda>_.
           exit 1))))"

definition verifyProjectTemplate :: "world \<Rightarrow> bool \<Rightarrow> string \<Rightarrow> string \<Rightarrow> unit prog" where
  "verifyProjectTemplate w isLocal tmpl dir =
     seq (templateKeywords w isLocal tmpl dir) (\<lambda>keywords.
     seq (if \<not> truthy keywords then ret True
          else seq (lift (js_includes keywords sentinel)) (\<lambda>b. ret (\<not> b))) (\<lambda>unverified.
     if_then unverified
       (seq (emit (ConsoleLog [])) (\<lambda>_.
        seq (emit (ConsoleError
          (''The provided template is not an Index app template. Check the template name or create an issue here:\<newline>'' @ errorLink))) (\<lambda>_.
        exit 1)))))"

subsection \<open>validateArgs\<close>

record request =
  r_template :: string
  r_useYarn :: jsval
  r_usePnpm :: jsval
  r_targetDirectoryRelative :: jsval
  r_targetDirectory :: string
  r_verbose :: jsval

text \<open>Line 131, \<^verbatim>\<open>target || _[2]\<close>; an index past the end reads \<open>undefined\<close>.\<close>

definition targetDirectoryRelative :: "args \<Rightarrow> jsval" where
  "targetDirectoryRelative a =
     (if truthy (target a) then target a
      else if 2 < length (positional a) then positional a ! 2 else None)"

text \<open>\<^verbatim>\<open>path.resolve(process.cwd(), p)\<close> throws unless \<open>p\<close> is a string.\<close>

definition resolve :: "world \<Rightarrow> jsval \<Rightarrow> string prog" where
  "resolve w p =
     (case p of Some (JStr s) \<Rightarrow> ret (path_resolve w (cwd w) s) | _ \<Rightarrow> throw TypeError)"

definition validateArgs :: "world \<Rightarrow> request prog" where
  "validateArgs w =
     (let a = yargs_argv w in
      seq (if_then (truthy (useYarn a) \<and> truthy (usePnpm a))
             (logError ''You cannot use yarn and pnpm at the same time.'')) (\<lambda>_.
      seq (if truthy (useYarn a)
           then seq (hasPmInstalled w ''yarn'') (\<lambda>ok.
                if_then (\<not> ok) (logError ''yarn doesn't seem to be installed.''))
           else ret ()) (\<lambda>_.
      seq (if truthy (usePnpm a)
           then seq (hasPmInstalled w ''pnpm'') (\<lambda>ok.
                if_then (\<not> ok) (logError ''pnpm doesn't seem to be installed.''))
           else ret ()) (\<lambda>_.
      seq (if_then (\<not> truthy (target a) \<and> length (positional a) = 2)
             (logError ''Missing --target directory.'')) (\<lambda>_.
      seq (case template a of
             Some (JStr s) \<Rightarrow> ret s
           | _ \<Rightarrow> logError ''Missing --template argument.'') (\<lambda>tmpl.
      seq (if_then (3 < length (positional a))
             (logError ''Unexpected extra arguments.'')) (\<lambda>_.
      seq (resolve w (targetDirectoryRelative a)) (\<lambda>targetDirectory.
      seq (if_then (existsSync w targetDirectory \<and> \<not> truthy (force a))
             (logError (targetDirectory @ '' already exists. Use `--force` to overwrite this directory.''))) (\<lambda>_.
      ret \<lparr> r_template = tmpl, r_useYarn = useYarn a, r_usePnpm = usePnpm a,
            r_targetDirectoryRelative = targetDirectoryRelative a,
            r_targetDirectory = targetDirectory, r_verbose = verbose a \<rparr>)))))))))"

subsection \<open>The top level\<close>

definition installer :: "request \<Rightarrow> string" where
  "installer r =
     (if truthy (r_useYarn r) then ''yarn''
      else if truthy (r_usePnpm r) then ''pnpm'' else ''npm'')"

definition isLocalTemplate :: "string \<Rightarrow> bool" where
  "isLocalTemplate tmpl = (take 1 tmpl = ''.'')"

definition installedTemplate :: "world \<Rightarrow> request \<Rightarrow> string" where
  "installedTemplate w r =
     (if isLocalTemplate (r_template r)
      then path_resolve w (cwd w) (r_template r)
      else path_join w [r_targetDirectory r, ''node_modules'', r_template r])"

text \<open>\<^verbatim>\<open>parseInt(s, 10)\<close>: leading white space, a sign, then the digits; \<open>None\<close> is
  \<open>NaN\<close>, which is below nothing.\<close>

definition is_space :: "char \<Rightarrow> bool" where
  "is_space c = ((of_char c :: nat) = 32 \<or> (9 \<le> (of_char c :: nat) \<and> (of_char c :: nat) \<le> 13))"

definition parseInt :: "string \<Rightarrow> int option" where
  "parseInt s =
     (let t = dropWhile is_space s;
          neg = (take 1 t = ''-'');
          u = (if take 1 t = ''-'' \<or> take 1 t = ''+'' then drop 1 t else t);
          ds = takeWhile is_digit u
      in if ds = [] then None
         else Some (if neg then - int (dec_val ds) else int (dec_val ds)))"

definition requiredMajorVersion :: "world \<Rightarrow> int option" where
  "requiredMajorVersion w = parseInt (takeWhile (\<lambda>c. c \<noteq> CHR ''.'') (node_version w))"

definition minimumMajorVersion :: int where
  "minimumMajorVersion = 10"

text \<open>Lines 169 to 177.\<close>

definition nodeVersionCheck :: "world \<Rightarrow> unit prog" where
  "nodeVersionCheck w =
     (case requiredMajorVersion w of
        None \<Rightarrow> ret ()
      | Some v \<Rightarrow>
          if_then (v < minimumMajorVersion)
            (seq (emit (ConsoleError (''Node.js v'' @ node_version w @ '' is out of date and unsupported!''))) (\<lambda>_.
             seq (emit (ConsoleError ''Please use Node.js v10 or higher.'')) (\<lambda>_.
             exit 1))))"

definition intro :: string where
  "intro = ''\<newline>            |\<newline>          |||||\<newline>        |||||||||         \<newline>       |||||||||||         \<newline>      |||||||||||||        Thank you for using Leaf! Please\<newline>      |||||||||||||        visit https://indexforwp.com/leaf\<newline>       |||||||||||\<newline>        |||||||||\<newline>          |||||\<newline>''"

text \<open>Lines 240 to 259.\<close>

definition installProcess :: "request \<Rightarrow> string \<Rightarrow> js_error + effect" where
  "installProcess r packageManager =
     (if packageManager = ''npm'' then
        Inr (Execa ''npm''
          [''install'', ''--loglevel'', if truthy (r_verbose r) then ''verbose'' else ''error'']
          (Some (r_targetDirectory r)) Inherit)
      else if packageManager = ''yarn'' then
        Inr (Execa ''yarn''
          [if truthy (r_verbose r) then ''--verbose'' else ''--silent'']
          (Some (r_targetDirectory r)) Inherit)
      else if packageManager = ''pnpm'' then
        Inr (Execa ''pnpm''
          [''install'', ''--reporter='' @ (if truthy (r_verbose r) then ''default'' else ''silent'')]
          (Some (r_targetDirectory r)) Inherit)
      else Inl (Error ''Unspecified package installer''))"

text \<open>The \<^verbatim>\<open>all\<close> of an error: the captured output of a failed subprocess.\<close>

fun err_all :: "js_error \<Rightarrow> string" where
  "err_all (ExecaError out) = out"
| "err_all e = ''undefined''"

text \<open>Lines 211 to 226: the template is fetched unless it is local.\<close>

definition template_install :: "request \<Rightarrow> effect" where
  "template_install r =
     Execa ''npm''
       [''install'', r_template r, ''--ignore-scripts'', ''--loglevel'',
        if truthy (r_verbose r) then ''verbose'' else ''error'']
       (Some (r_targetDirectory r)) All"

definition fetchTemplate :: "world \<Rightarrow> request \<Rightarrow> unit prog" where
  "fetchTemplate w r =
     if_then (\<not> isLocalTemplate (r_template r))
       (try_catch (perform w (template_install r))
          (\<lambda>err. seq (emit (ConsoleError (err_all err))) (\<lambda>_. throw err)))"

text \<open>Lines 197 to 229: the target directory, the placeholder manifest, the template.\<close>

definition initProject :: "world \<Rightarrow> request \<Rightarrow> unit prog" where
  "initProject w r =
     seq (emit (ConsoleLog (''\<newline>Template: '' @ r_template r))) (\<lambda>_.
     seq (emit (ConsoleLog (''Target directory: '' @ r_targetDirectory r))) (\<lambda>_.
     seq (perform w (MkdirSync (r_targetDirectory r))) (\<lambda>_.
     seq (perform w (WriteFile (path_join w [r_targetDirectory r, ''package.json''])
            (Text ''{\"name\": \"my-ndx-app\"}''))) (\<lambda>_.
     seq (fetchTemplate w r) (\<lambda>_.
     seq (perform w (Copy (installedTemplate w r) (r_targetDirectory r))) (\<lambda>_.
     cleanProject w (r_targetDirectory r)))))))"

text \<open>Lines 231 to 270. The two \<^verbatim>\<open>pipe\<close> calls do nothing: a subprocess that inherits
  the terminal has no \<^verbatim>\<open>stdout\<close> and no \<^verbatim>\<open>stderr\<close> stream of its own.\<close>

definition installPackages :: "world \<Rightarrow> request \<Rightarrow> unit prog" where
  "installPackages w r =
     seq (emit (ConsoleLog ''\<newline>'')) (\<lambda>_.
     seq (printStep ''Setting up packages...'' (Some ''this might take a minute'')) (\<lambda>_.
     seq (lift (installProcess r (installer r))) (\<lambda>npmInstallProcess.
     seq (perform w npmInstallProcess) (\<lambda>_.
     seq (emit (ConsoleLog ''\<newline>'')) (\<lambda>_.
     printStep (''Leaf is setup! Go to \"'' @ r_targetDirectory r @ '' to see your project'') None)))))"

text \<open>The body of the asynchronous function at the end of the file.\<close>

definition main :: "world \<Rightarrow> request \<Rightarrow> unit prog" where
  "main w r =
     seq (nodeVersionCheck w) (\<lambda>_.
     seq (emit (ConsoleLog (''\<newline> '' @ intro))) (\<lambda>_.
     seq (printStep ''Verifying template...'' None) (\<lambda>_.
     seq (verifyProjectTemplate w (isLocalTemplate (r_template r)) (r_template r)
            (installedTemplate w r)) (\<lambda>_.
     seq (initProject w r) (\<lambda>_.
     installPackages w r)))))"

text \<open>
  How the process ends: \<^verbatim>\<open>process.exit\<close> was called; \<^verbatim>\<open>validateArgs\<close>, which runs at
  the top of the module, threw; the promise of the asynchronous function was rejected,
  which nothing handles; or that function ran to its end.
\<close>

datatype outcome = Exited nat | Uncaught js_error | Rejected js_error | Finished

definition run :: "world \<Rightarrow> effect list \<times> outcome" where
  "run w =
     (case snd (validateArgs w) of
        Exit n \<Rightarrow> (fst (validateArgs w), Exited n)
      | Throw e \<Rightarrow> (fst (validateArgs w), Uncaught e)
      | Ret r \<Rightarrow>
          (fst (validateArgs w) @ fst (main w r),
           case snd (main w r) of
             Ret u \<Rightarrow> Finished
           | Exit n \<Rightarrow> Exited n
           | Throw e \<Rightarrow> Rejected e))"

text \<open>
  The exit status of the process. Node.js ends with status 1 on an uncaught exception.
  A rejection that nothing handles ends the process with status 1 from Node.js 15 on;
  before, the default was to print a warning and go on, so the process ends with
  status 0 once nothing is left to do. The version is the one the program reads for its
  own check (\<open>requiredMajorVersion\<close>); a version it cannot read counts as a current one.
\<close>

definition exit_status :: "world \<Rightarrow> outcome \<Rightarrow> nat" where
  "exit_status w out =
     (case out of
        Exited n \<Rightarrow> n
      | Uncaught e \<Rightarrow> 1
      | Rejected e \<Rightarrow>
          (case requiredMajorVersion w of
             Some v \<Rightarrow> if v < 15 then 0 else 1
           | None \<Rightarrow> 1)
      | Finished \<Rightarrow> 0)"

section \<open>Auxiliary notions and example runs\<close>

text \<open>The fields among \<open>ks\<close> that an object has, in the order of \<open>ks\<close>.\<close>

definition retained :: "string list \<Rightarrow> (string \<times> json) list \<Rightarrow> (string \<times> json) list" where
  "retained ks ms = concat (map (\<lambda>k. case map_of ms k of None \<Rightarrow> [] | Some v \<Rightarrow> [(k, v)]) ks)"

text \<open>A statement that ends the process does so with status 1.\<close>

definition exits1 :: "'a prog \<Rightarrow> bool" where
  "exits1 m = (case snd m of Exit n \<Rightarrow> n = 1 | _ \<Rightarrow> True)"

text \<open>The run reaches the initialisation of the project: the arguments are valid, the
  version of Node.js is accepted and the template is verified.\<close>

definition reaches_init :: "world \<Rightarrow> request \<Rightarrow> bool" where
  "reaches_init w r =
     (snd (validateArgs w) = Ret r \<and> snd (nodeVersionCheck w) = Ret () \<and>
      snd (verifyProjectTemplate w (isLocalTemplate (r_template r)) (r_template r)
             (installedTemplate w r)) = Ret ())"

text \<open>The subprocesses that go to the registry for the template: the keywords query
  (run without options) and the install of the template (run with \<^verbatim>\<open>all: true\<close>).\<close>

fun is_registry_call :: "effect \<Rightarrow> bool" where
  "is_registry_call (Execa f as d Piped) = True"
| "is_registry_call (Execa f as d All) = True"
| "is_registry_call e = False"

text \<open>
  Example runs. The first is the scenario
  \<^verbatim>\<open>create-index-app ./app --template @org/pkg\<close> on Node.js 18, where \<^verbatim>\<open>./app\<close> does not
  exist, the registry lists the sentinel keyword and every external call succeeds; the
  manifest of the template is the one of the specification's example. The others
  differ from it in one respect each.
\<close>

definition demo_manifest :: json where
  "demo_manifest =
     JObj [(''scripts'', JObj [(''build'', JStr ''x''), (''prepare'', JStr ''y''), (''custom'', JStr ''z'')]),
           (''dependencies'', JObj [(''a'', JStr ''1'')]),
           (''devDependencies'', JObj []),
           (''webDependencies'', JObj []),
           (''extraField'', JStr ''drop-me'')]"

definition demo_args :: args where
  "demo_args =
     \<lparr> template = Some (JStr ''@org/pkg''), useYarn = None, usePnpm = None, force = None,
       target = None, verbose = None,
       positional = [Some (JStr ''/usr/bin/node''), Some (JStr ''/usr/bin/create-index-app''),
                     Some (JStr ''./app'')] \<rparr>"

definition demo_world :: world where
  "demo_world =
     \<lparr> yargs_argv = demo_args,
       cwd = ''/home/me'',
       node_version = ''18.12.0'',
       path_resolve = (\<lambda>d p. d @ ''/'' @ (if take 2 p = ''./'' then drop 2 p else p)),
       path_join = (\<lambda>ps. foldr (\<lambda>p q. if q = [] then p else p @ ''/'' @ q) ps []),
       existsSync = (\<lambda>p. False),
       fails = (\<lambda>e. None),
       stdout_of = (\<lambda>e. ''[\"create-index-app--template\"]''),
       JSON_parse = (\<lambda>s. Inr (JArr [JStr ''create-index-app--template''])),
       require_template = (\<lambda>p. Inr (JObj [(''keywords'', JArr [JStr ''create-index-app--template''])])),
       require_target = (\<lambda>p. Inr demo_manifest) \<rparr>"

definition demo_request :: request where
  "demo_request =
     \<lparr> r_template = ''@org/pkg'', r_useYarn = None, r_usePnpm = None,
       r_targetDirectoryRelative = Some (JStr ''./app''),
       r_targetDirectory = ''/home/me/app'', r_verbose = None \<rparr>"

definition demo_clean_trace :: "effect list" where
  "demo_clean_trace =
     [RemoveSync ''/home/me/app/package-lock.json'', RemoveSync ''/home/me/app/node_modules'',
       RemoveSync ''/home/me/app/.gitignore'', RemoveSync ''/home/me/app/.npmignore'',
       RemoveSync ''/home/me/app/LICENSE'',
       WriteFile ''/home/me/app/package.json''
         (JSON_text (JObj [(''scripts'', JObj [(''prepare'', JStr ''y''), (''build'', JStr ''x''), (''custom'', JStr ''z'')]),
                (''webDependencies'', JObj []),
                (''dependencies'', JObj [(''a'', JStr ''1'')]),
                (''devDependencies'', JObj [])]))]"

definition demo_init_prefix :: "effect list" where
  "demo_init_prefix =
     [ConsoleLog ''\<newline>Template: @org/pkg'', ConsoleLog ''Target directory: /home/me/app'',
      MkdirSync ''/home/me/app'',
      WriteFile ''/home/me/app/package.json'' (Text ''{\"name\": \"my-ndx-app\"}'')]"

text \<open>The example run on another version of Node.js and with other failures.\<close>

definition demo_with :: "string \<Rightarrow> (effect \<Rightarrow> js_error option) \<Rightarrow> world" where
  "demo_with ver F = demo_world \<lparr> node_version := ver, fails := F \<rparr>"

definition final_install_fails :: "effect \<Rightarrow> js_error option" where
  "final_install_fails e =
     (if is_final_install e then Some (ExecaError ''Command failed with exit code 1'') else None)"

definition template_install_fails :: "effect \<Rightarrow> js_error option" where
  "template_install_fails e =
     (if e = template_install demo_request then Some (ExecaError ''npm ERR! code E404'') else None)"

definition both_managers_world :: world where
  "both_managers_world =
     demo_world \<lparr> yargs_argv := demo_args \<lparr> useYarn := Some (JBool True), usePnpm := Some (JBool True) \<rparr> \<rparr>"

definition existing_target_world :: world where
  "existing_target_world = demo_world \<lparr> existsSync := (\<lambda>p. p = ''/home/me/app'') \<rparr>"

definition registry_down_world :: world where
  "registry_down_world =
     demo_world \<lparr> fails := (\<lambda>e. if e = keywords_query ''@org/pkg''
                                  then Some (ExecaError ''npm ERR! network'') else None) \<rparr>"

definition local_request :: request where
  "local_request =
     \<lparr> r_template = ''./tpl'', r_useYarn = None, r_usePnpm = None,
       r_targetDirectoryRelative = Some (JStr ''./app''),
       r_targetDirectory = ''/home/me/app'', r_verbose = None \<rparr>"

definition local_world :: world where
  "local_world = demo_world \<lparr> yargs_argv := demo_args \<lparr> template := Some (JStr ''./tpl'') \<rparr> \<rparr>"


definition no_scripts_world :: world where
  "no_scripts_world = demo_world \<lparr> require_target := (\<lambda>p. Inr (JObj [(''dependencies'', JObj [(''a'', JStr ''1'')])])) \<rparr>"




section \<open>Sequencing and traces\<close>

lemma seq_ret [simp]: "seq (ret a) f = f a"
  by (simp add: seq_def ret_def)

lemma seq_exit [simp]: "seq (exit n) f = exit n"
  by (simp add: seq_def exit_def)

lemma seq_throw [simp]: "seq (throw e) f = throw e"
  by (simp add: seq_def throw_def)

lemma seq_logError [simp]: "seq (logError msg) f = logError msg"
  by (simp add: seq_def logError_def emit_def exit_def)

lemma logError_eq: "logError msg = ([ConsoleError msg], Exit 1)"
  by (simp add: seq_def logError_def emit_def exit_def)

lemma seq_Ret: "snd m = Ret a \<Longrightarrow> seq m f = (fst m @ fst (f a), snd (f a))"
  by (simp add: seq_def)


lemma seq_Throw: "snd m = Throw e \<Longrightarrow> seq m f = (fst m, Throw e)"
  by (simp add: seq_def)

lemma seq_emit: "seq (emit e) f = (e # fst (f ()), snd (f ()))"
  by (simp add: seq_def emit_def)

lemma prog_simps [simp]:
  "snd (ret a) = Ret a" "fst (ret a) = []"
  "snd (throw e) = Throw e" "fst (throw e) = []"
  "snd (exit n) = Exit n" "fst (exit n) = []"
  "snd (emit x) = Ret ()" "fst (emit x) = [x]"
  "snd (logError msg) = Exit 1" "fst (logError msg) = [ConsoleError msg]"
  by (simp_all add: ret_def throw_def exit_def emit_def logError_eq)

lemma lift_simps [simp]: "lift (Inl e) = throw e" "lift (Inr a) = ret a"
  by (simp_all add: lift_def)

lemma if_then_simps [simp]: "if_then True m = m" "if_then False m = ret ()"
  by (simp_all add: if_then_def)

lemma snd_perform: "snd (perform w e) = (case fails w e of None \<Rightarrow> Ret () | Some err \<Rightarrow> Throw err)"
  by (simp add: perform_def)

lemma fst_perform [simp]: "fst (perform w e) = [e]"
  by (simp add: perform_def)

lemma perform_ok: "fails w e = None \<Longrightarrow> perform w e = ([e], Ret ())"
  by (simp add: perform_def)

lemma perform_fails: "fails w e = Some err \<Longrightarrow> perform w e = ([e], Throw err)"
  by (simp add: perform_def)

lemma seq_perform_ok: "fails w e = None \<Longrightarrow> seq (perform w e) f = (e # fst (f ()), snd (f ()))"
  by (simp add: seq_def perform_def)

lemma seq_perform_fails: "fails w e = Some err \<Longrightarrow> seq (perform w e) f = ([e], Throw err)"
  by (simp add: seq_def perform_def)

lemma seq_pair [simp]:
  "seq (t, Ret a) f = (t @ fst (f a), snd (f a))"
  "seq (t, Exit n) f = (t, Exit n)"
  "seq (t, Throw e) f = (t, Throw e)"
  by (simp_all add: seq_def)

lemma try_catch_pair [simp]:
  "try_catch (t, Ret a) h = (t, Ret a)"
  "try_catch (t, Exit n) h = (t, Exit n)"
  "try_catch (t, Throw e) h = (t @ fst (h e), snd (h e))"
  by (simp_all add: try_catch_def)

lemma in_seq:
  "e \<in> set (fst (seq m f)) \<longleftrightarrow>
     e \<in> set (fst m) \<or> (\<exists>a. snd m = Ret a \<and> e \<in> set (fst (f a)))"
  by (cases "snd m") (auto simp: seq_def)

lemma snd_seq_Ret:
  "snd (seq m f) = Ret b \<longleftrightarrow> (\<exists>a. snd m = Ret a \<and> snd (f a) = Ret b)"
  by (cases "snd m") (auto simp: seq_def)

lemma snd_seq_Exit:
  "snd (seq m f) = Exit n \<longleftrightarrow> snd m = Exit n \<or> (\<exists>a. snd m = Ret a \<and> snd (f a) = Exit n)"
  by (cases "snd m") (auto simp: seq_def)

lemma snd_seq_Throw:
  "snd (seq m f) = Throw e \<longleftrightarrow> snd m = Throw e \<or> (\<exists>a. snd m = Ret a \<and> snd (f a) = Throw e)"
  by (cases "snd m") (auto simp: seq_def)

lemma fst_seq:
  "fst (seq m f) = fst m @ (case snd m of Ret a \<Rightarrow> fst (f a) | Exit n \<Rightarrow> [] | Throw e \<Rightarrow> [])"
  by (cases "snd m") (simp_all add: seq_def)

lemma fst_lift [simp]: "fst (lift x) = []"
  by (cases x) simp_all


lemma snd_if_then: "snd (if_then b m) = (if b then snd m else Ret ())"
  by (simp add: if_then_def)

lemma quietD: "filter P xs = [] \<Longrightarrow> x \<in> set xs \<Longrightarrow> \<not> P x"
  by (simp add: filter_empty_conv)

text \<open>No effect of a given kind in a trace: the rules follow the structure of the
  program.\<close>

lemma quiet_seq:
  "filter P (fst m) = [] \<Longrightarrow> (\<And>a. snd m = Ret a \<Longrightarrow> filter P (fst (f a)) = [])
    \<Longrightarrow> filter P (fst (seq m f)) = []"
  by (cases "snd m") (auto simp: seq_def)

lemma quiet_if_then:
  "(b \<Longrightarrow> filter P (fst m) = []) \<Longrightarrow> filter P (fst (if_then b m)) = []"
  by (simp add: if_then_def ret_def)

lemma quiet_logError: "\<not> P (ConsoleError msg) \<Longrightarrow> filter P (fst (logError msg)) = []"
  by (simp add: logError_eq)

lemma quiet_ret [simp]: "filter P (fst (ret a)) = []"
  by (simp add: ret_def)

lemma quiet_throw [simp]: "filter P (fst (throw e)) = []"
  by (simp add: throw_def)

lemma quiet_exit [simp]: "filter P (fst (exit n)) = []"
  by (simp add: exit_def)

lemma quiet_emit: "\<not> P e \<Longrightarrow> filter P (fst (emit e)) = []"
  by (simp add: emit_def)

lemma quiet_perform: "\<not> P e \<Longrightarrow> filter P (fst (perform w e)) = []"
  by (simp add: perform_def)

lemma quiet_lift [simp]: "filter P (fst (lift x)) = []"
  by (cases x) (simp_all add: lift_def)

lemma quiet_try_catch:
  "filter P (fst m) = [] \<Longrightarrow> (\<And>e. snd m = Throw e \<Longrightarrow> filter P (fst (h e)) = [])
    \<Longrightarrow> filter P (fst (try_catch m h)) = []"
  by (cases "snd m") (auto simp: try_catch_def)

lemma hasPmInstalled_eq:
  "hasPmInstalled w pm =
     ([CommandSync (pm @ '' --version'')], Ret (fails w (CommandSync (pm @ '' --version'')) = None))"
  by (simp add: hasPmInstalled_def try_catch_def seq_def perform_def ret_def split: option.splits)

lemma quiet_hasPmInstalled:
  "\<not> P (CommandSync (pm @ '' --version'')) \<Longrightarrow> filter P (fst (hasPmInstalled w pm)) = []"
  by (simp add: hasPmInstalled_eq)

lemma quiet_resolve [simp]: "filter P (fst (resolve w p)) = []"
  by (simp add: resolve_def split: option.splits json.splits)

lemma snd_resolve:
  "snd (resolve w p) =
     (case p of Some (JStr s) \<Rightarrow> Ret (path_resolve w (cwd w) s) | _ \<Rightarrow> Throw TypeError)"
  by (simp add: resolve_def split: option.splits json.splits)

lemma validateArgs_quiet:
  assumes "\<And>s. \<not> P (ConsoleError s)" and "\<And>c. \<not> P (CommandSync c)"
  shows "filter P (fst (validateArgs w)) = []"
  unfolding validateArgs_def Let_def
  by (intro quiet_seq quiet_if_then quiet_logError quiet_ret assms quiet_resolve)
     (auto simp: assms intro!: quiet_seq quiet_if_then quiet_logError quiet_hasPmInstalled
           split: option.splits json.splits)

text \<open>Every \<^verbatim>\<open>exit\<close> of the program has status 1.\<close>

lemma exits1_seq: "exits1 m \<Longrightarrow> (\<And>a. snd m = Ret a \<Longrightarrow> exits1 (f a)) \<Longrightarrow> exits1 (seq m f)"
  by (cases "snd m") (auto simp: seq_def exits1_def)

lemma exits1_if_then: "(b \<Longrightarrow> exits1 m) \<Longrightarrow> exits1 (if_then b m)"
  by (simp add: if_then_def ret_def exits1_def)

lemma exits1_simps [simp]:
  "exits1 (ret a)" "exits1 (throw e)" "exits1 (logError msg)" "exits1 (emit x)" "exits1 (perform w x)"
  "exits1 (lift y)" "exits1 (hasPmInstalled w pm)" "exits1 (resolve w p)" "exits1 (exit (Suc 0))"
  by (auto simp: exits1_def ret_def throw_def logError_eq emit_def perform_def lift_def exit_def
      hasPmInstalled_eq resolve_def split: option.splits sum.splits json.splits)

lemma exits1_try_catch:
  "exits1 m \<Longrightarrow> (\<And>e. snd m = Throw e \<Longrightarrow> exits1 (h e)) \<Longrightarrow> exits1 (try_catch m h)"
  by (cases "snd m") (auto simp: try_catch_def exits1_def)

lemma validateArgs_exits1: "exits1 (validateArgs w)"
  unfolding validateArgs_def Let_def
  by (intro exits1_seq exits1_if_then exits1_simps)
     (auto intro!: exits1_seq exits1_if_then split: option.splits json.splits)

section \<open>The manifest rewrite\<close>

lemma define_property_new:
  "array_index (fst kv) = None \<Longrightarrow> fst kv \<notin> fst ` set ps \<Longrightarrow> define_property ps kv = ps @ [kv]"
  by (simp add: define_property_def)

lemma foldl_define_property:
  "distinct (map fst kvs) \<Longrightarrow> \<forall>k\<in>set (map fst kvs). array_index k = None \<Longrightarrow>
   fst ` set kvs \<inter> fst ` set ps = {} \<Longrightarrow> foldl define_property ps kvs = ps @ kvs"
proof (induction kvs arbitrary: ps)
  case Nil
  then show ?case by simp
next
  case (Cons kv kvs)
  from Cons.prems have new: "define_property ps kv = ps @ [kv]"
    by (intro define_property_new) auto
  from Cons.prems have "foldl define_property (ps @ [kv]) kvs = (ps @ [kv]) @ kvs"
    by (intro Cons.IH) auto
  with new show ?case by simp
qed

lemma object_of_plain:
  "distinct (map fst kvs) \<Longrightarrow> \<forall>k\<in>set (map fst kvs). array_index k = None \<Longrightarrow> object_of kvs = kvs"
  using foldl_define_property [of kvs "[]"] by (simp add: object_of_def)

lemma array_index_names [simp]:
  "array_index ''prepare'' = None" "array_index ''start'' = None"
  "array_index ''build'' = None" "array_index ''test'' = None"
  "array_index ''scripts'' = None" "array_index ''webDependencies'' = None"
  "array_index ''dependencies'' = None" "array_index ''devDependencies'' = None"
  by (simp_all add: array_index_def is_digit_def)

lemma stringify_props_append:
  "stringify_props (ps @ qs) =
     JObj ((case stringify_props ps of JObj xs \<Rightarrow> xs | _ \<Rightarrow> []) @ (case stringify_props qs of JObj ys \<Rightarrow> ys | _ \<Rightarrow> []))"
  by (simp add: stringify_props_def)

lemma stringify_props_defined:
  "stringify_props (map (\<lambda>(k, v). (k, Some v)) xs) = JObj xs"
  by (induction xs) (auto simp: stringify_props_def)

lemma stringify_props_fields:
  "stringify_props (map (\<lambda>k. (k, map_of ms k)) ks) = JObj (retained ks ms)"
  by (induction ks) (auto simp: stringify_props_def retained_def split: option.splits)

lemma own_filter:
  "filter (\<lambda>p. fst p \<notin> S) (map (\<lambda>(k, v). (k, Some v)) ss) =
   map (\<lambda>(k, v). (k, Some v)) (filter (\<lambda>p. fst p \<notin> S) ss)"
  by (induction ss) auto

lemma fst_comp_own [simp]: "fst \<circ> (\<lambda>(k, v). (k, Some v)) = fst"
  by (simp add: fun_eq_iff)

lemma clean_scripts_object:
  assumes d: "distinct (map fst ss)" and ni: "\<forall>k\<in>set (map fst ss). array_index k = None"
  shows "rest_of (Some (JObj ss)) =
           Inr (map (\<lambda>(k, v). (k, Some v)) (filter (\<lambda>p. fst p \<notin> set well_known) ss))"
proof -
  let ?R = "map (\<lambda>(k, v). (k, Some v)) (filter (\<lambda>p. fst p \<notin> set well_known) ss)"
  have "distinct (map fst ?R)"
    using d by (simp add: distinct_map_filter)
  moreover have "\<forall>k\<in>set (map fst ?R). array_index k = None"
    using ni by auto
  ultimately have "object_of ?R = ?R"
    by (rule object_of_plain)
  then show ?thesis
    by (simp add: rest_of_def own_filter)
qed

lemma cleanManifest_no_scripts:
  "get_prop (Some manifest) ''scripts'' = Inr None \<Longrightarrow> cleanManifest manifest = Inl TypeError"
  by (simp add: cleanManifest_def rest_of_def)

lemma cleanProject_quiet_write:
  assumes "require_target w (path_join w [dir, ''package.json'']) = Inr manifest"
    and "cleanManifest manifest = Inl e"
  shows "filter is_write (fst (cleanProject w dir)) = []"
  unfolding cleanProject_def Let_def using assms
  by (intro quiet_seq quiet_perform quiet_lift) simp_all

lemma cleanProject_throws:
  assumes "require_target w (path_join w [dir, ''package.json'']) = Inr manifest"
    and "cleanManifest manifest = Inl e"
  shows "\<exists>e'. snd (cleanProject w dir) = Throw e'"
  unfolding cleanProject_def Let_def using assms
  by (auto simp: snd_seq_Throw snd_perform split: option.splits)

lemma cleanProject_TypeError:
  assumes "require_target w (path_join w [dir, ''package.json'']) = Inr manifest"
    and "cleanManifest manifest = Inl e"
    and "\<forall>p\<in>set [''package-lock.json'', ''node_modules'', ''.gitignore'', ''.npmignore'', ''LICENSE''].
           fails w (RemoveSync (path_join w [dir, p])) = None"
  shows "cleanProject w dir =
     (map (\<lambda>p. RemoveSync (path_join w [dir, p]))
        [''package-lock.json'', ''node_modules'', ''.gitignore'', ''.npmignore'', ''LICENSE''],
      Throw e)"
  unfolding cleanProject_def Let_def using assms
  by (simp add: seq_perform_ok)

section \<open>Validation and verification\<close>

lemma validateArgs_Ret:
  assumes "snd (validateArgs w) = Ret r"
  shows "\<exists>s tmpl. targetDirectoryRelative (yargs_argv w) = Some (JStr s) \<and>
           template (yargs_argv w) = Some (JStr tmpl) \<and>
           r = \<lparr> r_template = tmpl, r_useYarn = useYarn (yargs_argv w),
                 r_usePnpm = usePnpm (yargs_argv w),
                 r_targetDirectoryRelative = Some (JStr s),
                 r_targetDirectory = path_resolve w (cwd w) s,
                 r_verbose = verbose (yargs_argv w) \<rparr> \<and>
           \<not> (existsSync w (path_resolve w (cwd w) s) \<and> \<not> truthy (force (yargs_argv w))) \<and>
           \<not> (truthy (useYarn (yargs_argv w)) \<and> truthy (usePnpm (yargs_argv w)))"
  using assms unfolding validateArgs_def Let_def
  by (auto simp: snd_seq_Ret snd_if_then snd_resolve split: if_splits option.splits json.splits)

lemma validateArgs_Throw:
  assumes "snd (validateArgs w) = Throw e"
  shows "\<forall>s. targetDirectoryRelative (yargs_argv w) \<noteq> Some (JStr s)"
  using assms unfolding validateArgs_def Let_def
  by (auto simp: snd_seq_Throw snd_seq_Ret snd_if_then snd_resolve hasPmInstalled_eq
      split: if_splits option.splits json.splits)

lemma validateArgs_existing:
  assumes "targetDirectoryRelative (yargs_argv w) = Some (JStr s)"
    and "existsSync w (path_resolve w (cwd w) s)"
    and "\<not> truthy (force (yargs_argv w))"
  shows "snd (validateArgs w) = Exit 1"
proof (cases "snd (validateArgs w)")
  case (Ret r)
  from validateArgs_Ret [OF Ret] assms show ?thesis by auto
next
  case (Exit n)
  with validateArgs_exits1 [of w] show ?thesis by (simp add: exits1_def)
next
  case (Throw e)
  from validateArgs_Throw [OF Throw] assms show ?thesis by auto
qed

lemma nodeVersionCheck_cases:
  "nodeVersionCheck w = ret () \<or>
   nodeVersionCheck w =
     ([ConsoleError (''Node.js v'' @ node_version w @ '' is out of date and unsupported!''),
       ConsoleError ''Please use Node.js v10 or higher.''], Exit 1)"
  by (simp add: nodeVersionCheck_def if_then_def seq_emit exit_def split: option.splits)

lemma nodeVersionCheck_Ret: "snd (nodeVersionCheck w) = Ret u \<Longrightarrow> nodeVersionCheck w = ret ()"
  using nodeVersionCheck_cases [of w] by auto

lemma nodeVersionCheck_quiet:
  "(\<And>s. \<not> P (ConsoleError s)) \<Longrightarrow> filter P (fst (nodeVersionCheck w)) = []"
  using nodeVersionCheck_cases [of w] by auto

lemma nodeVersionCheck_exits1: "exits1 (nodeVersionCheck w)"
  using nodeVersionCheck_cases [of w] by (auto simp: exits1_def)






lemma templateKeywords_quiet:
  assumes "\<And>s. \<not> P (ConsoleLog s)" and "\<And>s. \<not> P (ConsoleError s)" and "\<not> P (keywords_query t)"
  shows "filter P (fst (templateKeywords w l t d)) = []"
  unfolding templateKeywords_def
  by (auto simp: assms intro!: quiet_seq quiet_try_catch quiet_perform quiet_emit)

lemma verify_quiet:
  assumes "\<And>s. \<not> P (ConsoleLog s)" and "\<And>s. \<not> P (ConsoleError s)" and "\<not> P (keywords_query t)"
  shows "filter P (fst (verifyProjectTemplate w l t d)) = []"
  unfolding verifyProjectTemplate_def
  by (auto simp: assms intro!: quiet_seq quiet_if_then quiet_emit templateKeywords_quiet)

lemma verify_exits1: "exits1 (verifyProjectTemplate w l t d)"
  unfolding verifyProjectTemplate_def templateKeywords_def
  by (auto intro!: exits1_seq exits1_if_then exits1_try_catch)

section \<open>The run up to the verification\<close>

lemma main_until_verification:
  assumes "snd (nodeVersionCheck w) = Ret ()"
  shows "main w r =
     seq (([ConsoleLog (''\<newline> '' @ intro), ConsoleLog ''Verifying template...''], Ret ())) (\<lambda>_.
     seq (verifyProjectTemplate w (isLocalTemplate (r_template r)) (r_template r)
            (installedTemplate w r)) (\<lambda>_.
     seq (initProject w r) (\<lambda>_. installPackages w r)))"
  using nodeVersionCheck_Ret [OF assms]
  by (simp add: main_def seq_emit printStep_def emit_def)

lemma remote_query_failed:
  assumes "fails w (keywords_query t) = Some e"
  shows "verifyProjectTemplate w False t d =
     ([keywords_query t, ConsoleLog [],
       ConsoleError (''Cannot verify external template safely. If you believe this is incorrect, create an issue here:\<newline>'' @ errorLink)],
      Exit 1)"
  using assms
  by (simp add: verifyProjectTemplate_def templateKeywords_def seq_perform_fails seq_emit)

section \<open>Copying and verification\<close>





section \<open>Initialisation and the final install\<close>

lemma cleanProject_quiet:
  assumes "\<And>p. \<not> P (RemoveSync p)" and "\<And>p c. \<not> P (WriteFile p c)"
  shows "filter P (fst (cleanProject w dir)) = []"
  unfolding cleanProject_def Let_def
  by (auto simp: assms intro!: quiet_seq quiet_perform)

lemma fetchTemplate_quiet:
  assumes "\<And>s. \<not> P (ConsoleError s)" and "\<not> P (template_install r)"
  shows "filter P (fst (fetchTemplate w r)) = []"
  unfolding fetchTemplate_def
  by (auto simp: assms intro!: quiet_seq quiet_if_then quiet_try_catch quiet_perform quiet_emit)

lemma initProject_quiet:
  assumes "\<And>s. \<not> P (ConsoleLog s)" and "\<And>s. \<not> P (ConsoleError s)"
    and "\<And>p. \<not> P (MkdirSync p)" and "\<And>p c. \<not> P (WriteFile p c)"
    and "\<And>p. \<not> P (RemoveSync p)" and "\<And>s d. \<not> P (Copy s d)"
    and "\<not> P (template_install r)"
  shows "filter P (fst (initProject w r)) = []"
  unfolding initProject_def
  by (auto simp: assms intro!: quiet_seq quiet_perform quiet_emit fetchTemplate_quiet
      cleanProject_quiet)

lemma fetchTemplate_remote:
  assumes "\<not> isLocalTemplate (r_template r)"
  shows "fetchTemplate w r =
     (case fails w (template_install r) of
        None \<Rightarrow> ([template_install r], Ret ())
      | Some err \<Rightarrow> ([template_install r, ConsoleError (err_all err)], Throw err))"
  using assms
  by (simp add: fetchTemplate_def perform_def seq_emit split: option.splits)

lemma initProject_remote:
  assumes "\<not> isLocalTemplate (r_template r)"
    and "fails w (MkdirSync (r_targetDirectory r)) = None"
    and "fails w (WriteFile (path_join w [r_targetDirectory r, ''package.json''])
           (Text ''{\"name\": \"my-ndx-app\"}'')) = None"
  shows "fails w (template_install r) = Some err \<Longrightarrow>
           initProject w r =
             ([ConsoleLog (''\<newline>Template: '' @ r_template r),
               ConsoleLog (''Target directory: '' @ r_targetDirectory r),
               MkdirSync (r_targetDirectory r),
               WriteFile (path_join w [r_targetDirectory r, ''package.json''])
                 (Text ''{\"name\": \"my-ndx-app\"}''),
               template_install r, ConsoleError (err_all err)], Throw err)"
    and "fails w (template_install r) = None \<Longrightarrow>
           \<exists>t'. fst (initProject w r) =
             [ConsoleLog (''\<newline>Template: '' @ r_template r),
              ConsoleLog (''Target directory: '' @ r_targetDirectory r),
              MkdirSync (r_targetDirectory r),
              WriteFile (path_join w [r_targetDirectory r, ''package.json''])
                (Text ''{\"name\": \"my-ndx-app\"}'')] @
             [template_install r,
              Copy (path_join w [r_targetDirectory r, ''node_modules'', r_template r])
                (r_targetDirectory r)] @ t'"
  using assms
  by (simp_all add: initProject_def seq_emit seq_perform_ok fetchTemplate_remote fst_seq
      installedTemplate_def)

lemma copy_in_initProject:
  assumes "e \<in> set (fst (initProject w r))" and "is_copy e"
  shows "e = Copy (installedTemplate w r) (r_targetDirectory r) \<and> snd (fetchTemplate w r) = Ret ()"
proof -
  have 1: "e \<notin> set (fst (fetchTemplate w r))"
    using quietD [OF fetchTemplate_quiet [of is_copy r w], of e] assms(2)
    by (auto simp: template_install_def)
  have 2: "e \<notin> set (fst (cleanProject w (r_targetDirectory r)))"
    using quietD [OF cleanProject_quiet [of is_copy w], of e] assms(2) by auto
  from assms 1 2 show ?thesis
    by (auto simp: initProject_def in_seq)
qed

lemma installProcess_installer:
  "\<exists>f as. installProcess r (installer r) = Inr (Execa f as (Some (r_targetDirectory r)) Inherit)"
  by (simp add: installProcess_def installer_def)

lemma final_install_in_installPackages:
  assumes "e \<in> set (fst (installPackages w r))" and "is_final_install e"
  shows "installProcess r (installer r) = Inr e"
proof -
  from installProcess_installer [of r] obtain f as where
    i: "installProcess r (installer r) = Inr (Execa f as (Some (r_targetDirectory r)) Inherit)"
    by blast
  from assms show ?thesis
    unfolding installPackages_def i
    by (auto simp: in_seq printStep_def)
qed

lemma final_install_in_main:
  assumes "e \<in> set (fst (main w r))" and "is_final_install e"
  shows "installProcess r (installer r) = Inr e"
proof -
  have 1: "e \<notin> set (fst (nodeVersionCheck w))"
    using quietD [OF nodeVersionCheck_quiet [of is_final_install w], of e] assms(2) by auto
  have 2: "e \<notin> set (fst (verifyProjectTemplate w (isLocalTemplate (r_template r)) (r_template r)
            (installedTemplate w r)))"
    using quietD [OF verify_quiet [of is_final_install "r_template r" w], of e] assms(2)
    by (auto simp: keywords_query_def)
  have 3: "e \<notin> set (fst (initProject w r))"
    using quietD [OF initProject_quiet [of is_final_install r w], of e] assms(2)
    by (auto simp: template_install_def)
  from assms 1 2 3 have "e \<in> set (fst (installPackages w r))"
    by (auto simp: main_def in_seq printStep_def)
  then show ?thesis
    using assms(2) by (rule final_install_in_installPackages)
qed

lemma final_install_in_run:
  assumes "snd (validateArgs w) = Ret r" and "e \<in> set (fst (run w))" and "is_final_install e"
  shows "installProcess r (installer r) = Inr e"
proof -
  have "e \<notin> set (fst (validateArgs w))"
    using quietD [OF validateArgs_quiet [of is_final_install w], of e] assms(3) by auto
  with assms have "e \<in> set (fst (main w r))"
    by (simp add: run_def)
  then show ?thesis
    using assms(3) by (rule final_install_in_main)
qed

lemma run_reached:
  assumes "reaches_init w r"
  shows "run w =
     (fst (validateArgs w) @
      [ConsoleLog (''\<newline> '' @ intro), ConsoleLog ''Verifying template...''] @
      fst (verifyProjectTemplate w (isLocalTemplate (r_template r)) (r_template r)
             (installedTemplate w r)) @
      fst (seq (initProject w r) (\<lambda>_. installPackages w r)),
      case snd (seq (initProject w r) (\<lambda>_. installPackages w r)) of
        Ret u \<Rightarrow> Finished | Exit n \<Rightarrow> Exited n | Throw e \<Rightarrow> Rejected e)"
proof -
  from assms have v: "snd (validateArgs w) = Ret r" and n: "snd (nodeVersionCheck w) = Ret ()"
    and t: "snd (verifyProjectTemplate w (isLocalTemplate (r_template r)) (r_template r)
             (installedTemplate w r)) = Ret ()"
    by (simp_all add: reaches_init_def)
  show ?thesis
    by (simp add: run_def v main_until_verification [OF n] seq_Ret [OF t])
qed

lemma prefix_quiet:
  assumes "\<And>s. \<not> P (ConsoleLog s)" and "\<And>s. \<not> P (ConsoleError s)" and "\<And>c. \<not> P (CommandSync c)"
    and "\<not> P (keywords_query (r_template r))"
  shows "filter P (fst (validateArgs w) @
      [ConsoleLog (''\<newline> '' @ intro), ConsoleLog ''Verifying template...''] @
      fst (verifyProjectTemplate w (isLocalTemplate (r_template r)) (r_template r)
             (installedTemplate w r))) = []"
  using validateArgs_quiet [of P w] verify_quiet [of P "r_template r" w] assms
  by simp

lemma installPackages_eq:
  assumes "installProcess r (installer r) = Inr e"
  shows "installPackages w r =
     ([ConsoleLog ''\<newline>'', ConsoleLog ''Setting up packages...  this might take a minute'', e] @
      (case fails w e of None \<Rightarrow>
         [ConsoleLog ''\<newline>'',
          ConsoleLog (''Leaf is setup! Go to \"'' @ r_targetDirectory r @ '' to see your project'')]
       | Some err \<Rightarrow> []),
      case fails w e of None \<Rightarrow> Ret () | Some err \<Rightarrow> Throw err)"
  unfolding installPackages_def assms
  by (cases "fails w e") (simp_all add: seq_emit printStep_def emit_def seq_perform_ok seq_perform_fails)

lemma installPackages_quiet:
  assumes "\<And>s. \<not> P (ConsoleLog s)" and "\<And>f as d. \<not> P (Execa f as d Inherit)"
  shows "filter P (fst (installPackages w r)) = []"
proof -
  from installProcess_installer [of r] obtain f as where
    i: "installProcess r (installer r) = Inr (Execa f as (Some (r_targetDirectory r)) Inherit)"
    by blast
  show ?thesis
    by (simp add: installPackages_eq [OF i] assms split: option.splits)
qed

lemma final_install_once:
  assumes reach: "reaches_init w r" and init: "snd (initProject w r) = Ret ()"
    and e: "installProcess r (installer r) = Inr e"
  shows "filter is_final_install (fst (run w)) = [e]"
proof -
  from installProcess_installer [of r] e have f: "is_final_install e"
    by auto
  have p: "filter is_final_install (fst (validateArgs w) @
      [ConsoleLog (''\<newline> '' @ intro), ConsoleLog ''Verifying template...''] @
      fst (verifyProjectTemplate w (isLocalTemplate (r_template r)) (r_template r)
             (installedTemplate w r))) = []"
    by (rule prefix_quiet) (simp_all add: keywords_query_def)
  have i: "filter is_final_install (fst (initProject w r)) = []"
    by (rule initProject_quiet) (simp_all add: template_install_def)
  have "filter is_final_install (fst (installPackages w r)) = [e]"
    using f by (simp add: installPackages_eq [OF e] split: option.splits)
  with p i show ?thesis
    using p by (simp add: run_reached [OF reach] seq_Ret [OF init])
qed

lemma failed_install_run:
  assumes reach: "reaches_init w r" and init: "snd (initProject w r) = Ret ()"
    and e: "installProcess r (installer r) = Inr e" and failed: "fails w e = Some err"
  shows "snd (run w) = Rejected err \<and> last (fst (run w)) = e"
  by (simp add: run_reached [OF reach] seq_Ret [OF init] installPackages_eq [OF e] failed)

section \<open>How a run ends\<close>

lemma exits1_cleanProject: "exits1 (cleanProject w dir)"
  unfolding cleanProject_def Let_def
  by (auto intro!: exits1_seq)

lemma exits1_initProject: "exits1 (initProject w r)"
  unfolding initProject_def fetchTemplate_def
  by (auto intro!: exits1_seq exits1_if_then exits1_try_catch exits1_cleanProject)

lemma exits1_installPackages: "exits1 (installPackages w r)"
  unfolding installPackages_def printStep_def
  by (auto intro!: exits1_seq)

lemma exits1_main: "exits1 (main w r)"
  unfolding main_def printStep_def
  by (auto intro!: exits1_seq nodeVersionCheck_exits1 verify_exits1 exits1_initProject
      exits1_installPackages)

lemma run_Exited:
  assumes "snd (run w) = Exited n"
  shows "n = 1"
proof (cases "snd (validateArgs w)")
  case (Ret r)
  with assms exits1_main [of w r] show ?thesis
    by (auto simp: run_def exits1_def split: res.splits)
next
  case (Exit k)
  with assms validateArgs_exits1 [of w] show ?thesis
    by (auto simp: run_def exits1_def)
next
  case (Throw e)
  with assms show ?thesis
    by (simp add: run_def)
qed

section \<open>Local and remote templates\<close>

lemma local_keywords_trace [simp]: "fst (templateKeywords w True t d) = []"
  by (simp add: templateKeywords_def fst_seq split: res.splits)

lemma verify_quiet_local:
  assumes "\<And>s. \<not> P (ConsoleLog s)" and "\<And>s. \<not> P (ConsoleError s)"
  shows "filter P (fst (verifyProjectTemplate w True t d)) = []"
  unfolding verifyProjectTemplate_def
  by (auto simp: assms intro!: quiet_seq quiet_if_then quiet_emit)

lemma local_run_quiet:
  assumes v: "snd (validateArgs w) = Ret r" and l: "isLocalTemplate (r_template r)"
  shows "filter is_registry_call (fst (run w)) = []"
proof -
  have 1: "filter is_registry_call (fst (validateArgs w)) = []"
    by (rule validateArgs_quiet) simp_all
  have 2: "filter is_registry_call (fst (nodeVersionCheck w)) = []"
    by (rule nodeVersionCheck_quiet) simp
  have 3: "filter is_registry_call (fst (verifyProjectTemplate w (isLocalTemplate (r_template r))
             (r_template r) (installedTemplate w r))) = []"
    using l by (simp add: verify_quiet_local)
  have f: "fetchTemplate w r = ret ()"
    using l by (simp add: fetchTemplate_def)
  have 4: "filter is_registry_call (fst (initProject w r)) = []"
    unfolding initProject_def f
    by (auto intro!: quiet_seq quiet_emit quiet_perform cleanProject_quiet)
  have 5: "filter is_registry_call (fst (installPackages w r)) = []"
    by (rule installPackages_quiet) simp_all
  have "filter is_registry_call (fst (main w r)) = []"
    unfolding main_def printStep_def
    by (intro quiet_seq quiet_emit 2 3 4 5) simp_all
  with 1 v show ?thesis
    by (simp add: run_def)
qed

lemma copy_reaches:
  assumes v: "snd (validateArgs w) = Ret r" and e: "e \<in> set (fst (run w))" and c: "is_copy e"
  shows "reaches_init w r \<and> e \<in> set (fst (initProject w r))"
proof -
  have "e \<notin> set (fst (validateArgs w))"
    using quietD [OF validateArgs_quiet [of is_copy w], of e] c by auto
  with v e have m: "e \<in> set (fst (main w r))"
    by (simp add: run_def)
  have 1: "e \<notin> set (fst (nodeVersionCheck w))"
    using quietD [OF nodeVersionCheck_quiet [of is_copy w], of e] c by auto
  have 2: "e \<notin> set (fst (verifyProjectTemplate w (isLocalTemplate (r_template r)) (r_template r)
            (installedTemplate w r)))"
    using quietD [OF verify_quiet [of is_copy "r_template r" w], of e] c
    by (auto simp: keywords_query_def)
  have 3: "e \<notin> set (fst (installPackages w r))"
    using quietD [OF installPackages_quiet [of is_copy w r], of e] c by auto
  from m 1 2 3 c v show ?thesis
    by (auto simp: main_def in_seq printStep_def reaches_init_def)
qed

lemma remote_query_in_verify:
  "keywords_query t \<in> set (fst (verifyProjectTemplate w False t d))"
  by (simp add: verifyProjectTemplate_def templateKeywords_def in_seq try_catch_def fst_seq
      split: res.splits)

section \<open>The example run\<close>

lemmas demo_defs = demo_world_def demo_args_def demo_manifest_def

lemma demo_validateArgs:
  "validateArgs demo_world =
     ret \<lparr> r_template = ''@org/pkg'', r_useYarn = None, r_usePnpm = None,
           r_targetDirectoryRelative = Some (JStr ''./app''),
           r_targetDirectory = ''/home/me/app'', r_verbose = None \<rparr>"
  by (simp add: validateArgs_def Let_def demo_defs targetDirectoryRelative_def resolve_def)

lemma demo_nodeVersionCheck: "nodeVersionCheck demo_world = ret ()"
  by (simp add: nodeVersionCheck_def requiredMajorVersion_def parseInt_def Let_def is_space_def
      is_digit_def dec_val_def minimumMajorVersion_def demo_defs)

lemma demo_verify:
  "verifyProjectTemplate demo_world False ''@org/pkg'' d = ([keywords_query ''@org/pkg''], Ret ())"
  by (simp add: verifyProjectTemplate_def templateKeywords_def seq_perform_ok demo_defs sentinel_def)

lemma demo_cleanManifest:
  "cleanManifest demo_manifest =
     Inr (JObj [(''scripts'', JObj [(''prepare'', JStr ''y''), (''build'', JStr ''x''), (''custom'', JStr ''z'')]),
                (''webDependencies'', JObj []),
                (''dependencies'', JObj [(''a'', JStr ''1'')]),
                (''devDependencies'', JObj [])])"
  by (simp add: demo_manifest_def cleanManifest_def rest_of_def property_def well_known_def
       object_of_def define_property_def array_index_def is_digit_def stringify_props_def)

lemma demo_cleanProject:
  "cleanProject demo_world ''/home/me/app'' =
     ([RemoveSync ''/home/me/app/package-lock.json'', RemoveSync ''/home/me/app/node_modules'',
       RemoveSync ''/home/me/app/.gitignore'', RemoveSync ''/home/me/app/.npmignore'',
       RemoveSync ''/home/me/app/LICENSE'',
       WriteFile ''/home/me/app/package.json''
         (JSON_text (JObj [(''scripts'', JObj [(''prepare'', JStr ''y''), (''build'', JStr ''x''), (''custom'', JStr ''z'')]),
                (''webDependencies'', JObj []),
                (''dependencies'', JObj [(''a'', JStr ''1'')]),
                (''devDependencies'', JObj [])]))], Ret ())"
proof -
  have "require_target demo_world (path_join demo_world [''/home/me/app'', ''package.json'']) = Inr demo_manifest"
    by (simp add: demo_world_def)
  moreover have "\<And>e. fails demo_world e = None"
    by (simp add: demo_world_def)
  moreover have "\<And>p. path_join demo_world [''/home/me/app'', p] = (if p = [] then ''/home/me/app'' else ''/home/me/app/'' @ p)"
    by (simp add: demo_world_def)
  ultimately show ?thesis
    unfolding cleanProject_def Let_def
    by (simp add: seq_perform_ok demo_cleanManifest perform_ok)
qed

lemma demo_initProject:
  "initProject demo_world demo_request =
     ([ConsoleLog ''\<newline>Template: @org/pkg'', ConsoleLog ''Target directory: /home/me/app'',
       MkdirSync ''/home/me/app'',
       WriteFile ''/home/me/app/package.json'' (Text ''{\"name\": \"my-ndx-app\"}''),
       Execa ''npm'' [''install'', ''@org/pkg'', ''--ignore-scripts'', ''--loglevel'', ''error'']
         (Some ''/home/me/app'') All,
       Copy ''/home/me/app/node_modules/@org/pkg'' ''/home/me/app''] @ demo_clean_trace, Ret ())"
proof -
  have f: "\<And>e. fails demo_world e = None"
    by (simp add: demo_world_def)
  have c: "cleanProject demo_world (r_targetDirectory demo_request) = (demo_clean_trace, Ret ())"
    using demo_cleanProject by (simp add: demo_request_def demo_clean_trace_def)
  show ?thesis
    unfolding initProject_def fetchTemplate_def c
    by (simp add: seq_emit perform_ok f isLocalTemplate_def template_install_def installedTemplate_def)
       (simp add: demo_world_def demo_request_def)
qed

lemma demo_installPackages:
  "installPackages demo_world demo_request =
     ([ConsoleLog ''\<newline>'', ConsoleLog ''Setting up packages...  this might take a minute'',
       Execa ''npm'' [''install'', ''--loglevel'', ''error''] (Some ''/home/me/app'') Inherit,
       ConsoleLog ''\<newline>'',
       ConsoleLog ''Leaf is setup! Go to \"/home/me/app to see your project''], Ret ())"
proof -
  have f: "\<And>e. fails demo_world e = None"
    by (simp add: demo_world_def)
  show ?thesis
    unfolding installPackages_def
    by (simp add: seq_emit perform_ok f installProcess_def installer_def printStep_def emit_def
        demo_request_def)
qed

lemma demo_installProcess:
  "installProcess demo_request (installer demo_request) =
     Inr (Execa ''npm'' [''install'', ''--loglevel'', ''error''] (Some ''/home/me/app'') Inherit)"
  by (simp add: installProcess_def installer_def demo_request_def)

lemma demo_run:
  "run demo_world =
     ([ConsoleLog (''\<newline> '' @ intro), ConsoleLog ''Verifying template...'',
       Execa ''npm'' [''info'', ''@org/pkg'', ''keywords'', ''--json''] None Piped,
       ConsoleLog ''\<newline>Template: @org/pkg'', ConsoleLog ''Target directory: /home/me/app'',
       MkdirSync ''/home/me/app'',
       WriteFile ''/home/me/app/package.json'' (Text ''{\"name\": \"my-ndx-app\"}''),
       Execa ''npm'' [''install'', ''@org/pkg'', ''--ignore-scripts'', ''--loglevel'', ''error'']
         (Some ''/home/me/app'') All,
       Copy ''/home/me/app/node_modules/@org/pkg'' ''/home/me/app''] @ demo_clean_trace @
      [ConsoleLog ''\<newline>'', ConsoleLog ''Setting up packages...  this might take a minute'',
       Execa ''npm'' [''install'', ''--loglevel'', ''error''] (Some ''/home/me/app'') Inherit,
       ConsoleLog ''\<newline>'',
       ConsoleLog ''Leaf is setup! Go to \"/home/me/app to see your project''], Finished)"
proof -
  have v: "validateArgs demo_world = ret demo_request"
    using demo_validateArgs by (simp add: demo_request_def)
  have m: "main demo_world demo_request =
     ([ConsoleLog (''\<newline> '' @ intro), ConsoleLog ''Verifying template...'',
       keywords_query ''@org/pkg''] @ fst (initProject demo_world demo_request)
       @ fst (installPackages demo_world demo_request), Ret ())"
    unfolding main_def demo_nodeVersionCheck demo_initProject demo_installPackages
    by (simp add: seq_emit printStep_def emit_def isLocalTemplate_def demo_verify demo_request_def)
  show ?thesis
    by (simp add: run_def v m demo_initProject demo_installPackages keywords_query_def)
qed

section \<open>Variants of the example run\<close>

lemma demo_with_validateArgs: "validateArgs (demo_with ver F) = ret demo_request"
  by (simp add: validateArgs_def Let_def demo_with_def demo_defs demo_request_def
      targetDirectoryRelative_def resolve_def)

lemma demo_with_18:
  "requiredMajorVersion (demo_with ''18.12.0'' F) = Some 18"
  "nodeVersionCheck (demo_with ''18.12.0'' F) = ret ()"
  by (simp_all add: nodeVersionCheck_def requiredMajorVersion_def parseInt_def Let_def is_space_def
      is_digit_def dec_val_def minimumMajorVersion_def demo_with_def demo_defs)

lemma demo_with_12:
  "requiredMajorVersion (demo_with ''12.22.1'' F) = Some 12"
  "nodeVersionCheck (demo_with ''12.22.1'' F) = ret ()"
  by (simp_all add: nodeVersionCheck_def requiredMajorVersion_def parseInt_def Let_def is_space_def
      is_digit_def dec_val_def minimumMajorVersion_def demo_with_def demo_defs)

lemma demo_with_verify:
  assumes "F (keywords_query ''@org/pkg'') = None"
  shows "verifyProjectTemplate (demo_with ver F) False ''@org/pkg'' d
           = ([keywords_query ''@org/pkg''], Ret ())"
  using assms
  by (simp add: verifyProjectTemplate_def templateKeywords_def seq_perform_ok
      demo_with_def demo_defs sentinel_def)

lemma demo_with_reaches:
  assumes "F (keywords_query ''@org/pkg'') = None"
    and "nodeVersionCheck (demo_with ver F) = ret ()"
  shows "reaches_init (demo_with ver F) demo_request"
  using assms
  by (simp add: reaches_init_def demo_with_validateArgs demo_with_verify)
     (simp add: demo_request_def isLocalTemplate_def demo_with_verify)

lemma demo_with_cleanProject:
  assumes "\<And>e. \<not> is_final_install e \<Longrightarrow> F e = None"
  shows "cleanProject (demo_with ver F) ''/home/me/app'' = (demo_clean_trace, Ret ())"
proof -
  have "require_target (demo_with ver F) (path_join (demo_with ver F) [''/home/me/app'', ''package.json'']) = Inr demo_manifest"
    by (simp add: demo_with_def demo_world_def)
  moreover have "\<And>e. \<not> is_final_install e \<Longrightarrow> fails (demo_with ver F) e = None"
    using assms by (simp add: demo_with_def)
  moreover have "\<And>p. path_join (demo_with ver F) [''/home/me/app'', p] = (if p = [] then ''/home/me/app'' else ''/home/me/app/'' @ p)"
    by (simp add: demo_with_def demo_world_def)
  ultimately show ?thesis
    unfolding cleanProject_def Let_def
    by (simp add: seq_perform_ok demo_cleanManifest perform_ok demo_clean_trace_def)
qed

lemma demo_with_initProject:
  assumes "\<And>e. \<not> is_final_install e \<Longrightarrow> F e = None"
  shows "initProject (demo_with ver F) demo_request =
     (demo_init_prefix @
      [Execa ''npm'' [''install'', ''@org/pkg'', ''--ignore-scripts'', ''--loglevel'', ''error'']
         (Some ''/home/me/app'') All,
       Copy ''/home/me/app/node_modules/@org/pkg'' ''/home/me/app''] @ demo_clean_trace, Ret ())"
proof -
  have f: "\<And>e. \<not> is_final_install e \<Longrightarrow> fails (demo_with ver F) e = None"
    using assms by (simp add: demo_with_def)
  have c: "cleanProject (demo_with ver F) (r_targetDirectory demo_request) = (demo_clean_trace, Ret ())"
    using demo_with_cleanProject [OF assms] by (simp add: demo_request_def)
  show ?thesis
    unfolding initProject_def fetchTemplate_def c
    by (simp add: seq_emit perform_ok f isLocalTemplate_def template_install_def installedTemplate_def
          demo_init_prefix_def)
       (simp add: demo_with_def demo_world_def demo_request_def)
qed

lemma demo_with_template_install_fails:
  assumes "F (MkdirSync ''/home/me/app'') = None"
    and "F (WriteFile ''/home/me/app/package.json'' (Text ''{\"name\": \"my-ndx-app\"}'')) = None"
    and "F (template_install demo_request) = Some err"
  shows "initProject (demo_with ver F) demo_request =
     (demo_init_prefix @ [template_install demo_request, ConsoleError (err_all err)], Throw err)"
proof -
  have "fails (demo_with ver F) = F"
    by (simp add: demo_with_def)
  moreover have "path_join (demo_with ver F) [''/home/me/app'', ''package.json''] = ''/home/me/app/package.json''"
    by (simp add: demo_with_def demo_world_def)
  moreover have "r_targetDirectory demo_request = ''/home/me/app''" "r_template demo_request = ''@org/pkg''"
    by (simp_all add: demo_request_def)
  ultimately show ?thesis
    using assms unfolding initProject_def fetchTemplate_def
    by (simp add: seq_emit seq_perform_ok perform_fails isLocalTemplate_def demo_init_prefix_def)
qed

lemma demo_world_with: "demo_world = demo_with ''18.12.0'' (\<lambda>e. None)"
  by (simp add: demo_with_def demo_world_def)

lemma demo_reaches: "reaches_init demo_world demo_request"
  unfolding demo_world_with
  by (rule demo_with_reaches) (simp_all add: demo_with_18)

lemma final_install_fails_simps:
  "final_install_fails (keywords_query t) = None"
  "\<not> is_final_install x \<Longrightarrow> final_install_fails x = None"
  "final_install_fails (Execa f as d Inherit) = Some (ExecaError ''Command failed with exit code 1'')"
  by (simp_all add: final_install_fails_def keywords_query_def)

lemma template_install_fails_simps:
  "template_install_fails (keywords_query t) = None"
  "template_install_fails (MkdirSync p) = None"
  "template_install_fails (WriteFile p c) = None"
  "template_install_fails
     (Execa ''npm'' [''install'', ''@org/pkg'', ''--ignore-scripts'', ''--loglevel'', ''error'']
        (Some ''/home/me/app'') All) = Some (ExecaError ''npm ERR! code E404'')"
  by (simp_all add: template_install_fails_def keywords_query_def template_install_def
      demo_request_def)

lemma registry_down_validateArgs: "validateArgs registry_down_world = ret demo_request"
  by (simp add: validateArgs_def Let_def registry_down_world_def demo_defs demo_request_def
      targetDirectoryRelative_def resolve_def)

lemma registry_down_nodeVersionCheck: "nodeVersionCheck registry_down_world = ret ()"
  by (simp add: nodeVersionCheck_def requiredMajorVersion_def parseInt_def Let_def is_space_def
      is_digit_def dec_val_def minimumMajorVersion_def registry_down_world_def demo_defs)










lemma local_validateArgs: "validateArgs local_world = ret local_request"
  by (simp add: validateArgs_def Let_def local_world_def demo_defs local_request_def
      targetDirectoryRelative_def resolve_def)

section \<open>The claims\<close>




text \<open>
  C2. Whenever the run reaches the verification of a remote template and the registry
  query (\<^verbatim>\<open>npm info <template> keywords --json\<close>) fails, the verification fails closed:
  the program prints an empty line and the guidance message, and ends with exit status
  1. The query is the last step but the two messages, so the failed query is not taken
  for a pass, and nothing on the disk is touched: no directory, no file, no copy.
\<close>

theorem failed_query_fails_closed:
  assumes v: "snd (validateArgs w) = Ret r"
    and n: "snd (nodeVersionCheck w) = Ret ()"
    and remote: "\<not> isLocalTemplate (r_template r)"
    and failed: "fails w (Execa ''npm'' [''info'', r_template r, ''keywords'', ''--json''] None Piped) = Some e"
  shows "run w =
     (fst (validateArgs w) @
      [ConsoleLog (''\<newline> '' @ intro), ConsoleLog ''Verifying template...'',
       Execa ''npm'' [''info'', r_template r, ''keywords'', ''--json''] None Piped,
       ConsoleLog [],
       ConsoleError (''Cannot verify external template safely. If you believe this is incorrect, create an issue here:\<newline>'' @ errorLink)],
      Exited 1) \<and>
     filter mutating (fst (run w)) = []"
proof -
  have q: "fails w (keywords_query (r_template r)) = Some e"
    using failed by (simp add: keywords_query_def)
  have "main w r =
     ([ConsoleLog (''\<newline> '' @ intro), ConsoleLog ''Verifying template...'',
       keywords_query (r_template r), ConsoleLog [],
       ConsoleError (''Cannot verify external template safely. If you believe this is incorrect, create an issue here:\<newline>'' @ errorLink)],
      Exit 1)"
    using remote by (simp add: main_until_verification [OF n] remote_query_failed [OF q])
  then have r: "run w =
     (fst (validateArgs w) @
      [ConsoleLog (''\<newline> '' @ intro), ConsoleLog ''Verifying template...'',
       keywords_query (r_template r), ConsoleLog [],
       ConsoleError (''Cannot verify external template safely. If you believe this is incorrect, create an issue here:\<newline>'' @ errorLink)],
      Exited 1)"
    using v by (simp add: run_def)
  have "filter mutating (fst (validateArgs w)) = []"
    by (rule validateArgs_quiet) simp_all
  with r show ?thesis
    by (simp add: keywords_query_def)
qed

theorem failed_query_fails_closed_witness:
  "snd (validateArgs registry_down_world) = Ret demo_request \<and>
   snd (nodeVersionCheck registry_down_world) = Ret () \<and>
   \<not> isLocalTemplate (r_template demo_request) \<and>
   fails registry_down_world (Execa ''npm'' [''info'', ''@org/pkg'', ''keywords'', ''--json''] None Piped)
     = Some (ExecaError ''npm ERR! network'') \<and>
   run registry_down_world =
     ([ConsoleLog (''\<newline> '' @ intro), ConsoleLog ''Verifying template...'',
       Execa ''npm'' [''info'', ''@org/pkg'', ''keywords'', ''--json''] None Piped,
       ConsoleLog [],
       ConsoleError (''Cannot verify external template safely. If you believe this is incorrect, create an issue here:\<newline>'' @ errorLink)],
      Exited 1)"
proof -
  have v: "snd (validateArgs registry_down_world) = Ret demo_request"
    by (simp add: registry_down_validateArgs)
  have n: "snd (nodeVersionCheck registry_down_world) = Ret ()"
    by (simp add: registry_down_nodeVersionCheck)
  have l: "\<not> isLocalTemplate (r_template demo_request)"
    by (simp add: isLocalTemplate_def demo_request_def)
  have f: "fails registry_down_world
      (Execa ''npm'' [''info'', r_template demo_request, ''keywords'', ''--json''] None Piped)
     = Some (ExecaError ''npm ERR! network'')"
    by (simp add: registry_down_world_def demo_world_def keywords_query_def demo_request_def)
  from failed_query_fails_closed [OF v n l f] v n l f show ?thesis
    by (simp add: registry_down_validateArgs demo_request_def)
qed

text \<open>
  C3 (as amended). For every manifest that is an object whose \<open>scripts\<close> field is an
  object with no array index among its script names (and, as in every JavaScript
  object, no name twice), the cleaning step writes a document with exactly these
  fields, in this order: \<open>scripts\<close>, and those of \<open>webDependencies\<close>, \<open>dependencies\<close>,
  \<open>devDependencies\<close> that the manifest has, with their values unchanged. Its scripts are
  those present of \<open>prepare\<close>, \<open>start\<close>, \<open>build\<close>, \<open>test\<close>, in this order, followed by
  the remaining scripts in their original relative order.
\<close>

theorem manifest_rewrite:
  assumes s: "map_of ms ''scripts'' = Some (JObj ss)"
    and d: "distinct (map fst ss)"
    and ni: "\<forall>k\<in>set (map fst ss). array_index k = None"
  shows "cleanManifest (JObj ms) =
     Inr (JObj ((''scripts'',
                 JObj (retained well_known ss @ filter (\<lambda>p. fst p \<notin> set well_known) ss))
               # retained [''webDependencies'', ''dependencies'', ''devDependencies''] ms))"
proof -
  let ?rest = "filter (\<lambda>p. fst p \<notin> set well_known) ss"
  let ?R = "map (\<lambda>(k, v). (k, Some v)) ?rest"
  let ?W = "map (\<lambda>k. (k, map_of ss k)) well_known"
  have W: "[(''prepare'', property (Some (JObj ss)) ''prepare''),
            (''start'', property (Some (JObj ss)) ''start''),
            (''build'', property (Some (JObj ss)) ''build''),
            (''test'', property (Some (JObj ss)) ''test'')] = ?W"
    by (simp add: property_def well_known_def)
  have dR: "distinct (map fst ?R)"
    using d by (simp add: distinct_map_filter)
  have "distinct (map fst (?W @ ?R))"
    using dR by (auto simp: well_known_def)
  moreover have "\<forall>k\<in>set (map fst (?W @ ?R)). array_index k = None"
    using ni by (auto simp: well_known_def)
  ultimately have inner: "object_of (?W @ ?R) = ?W @ ?R"
    by (rule object_of_plain)
  have scripts: "stringify_props (?W @ ?R) = JObj (retained well_known ss @ ?rest)"
    by (simp add: stringify_props_append stringify_props_defined stringify_props_fields)
  let ?O = "(''scripts'', Some (JObj (retained well_known ss @ ?rest)))
            # map (\<lambda>k. (k, map_of ms k)) [''webDependencies'', ''dependencies'', ''devDependencies'']"
  have outer: "object_of ?O = ?O"
    by (rule object_of_plain) simp_all
  have "stringify_props ?O =
          JObj ((''scripts'', JObj (retained well_known ss @ ?rest))
                # retained [''webDependencies'', ''dependencies'', ''devDependencies''] ms)"
    by (simp add: stringify_props_def retained_def)
  then show ?thesis
    using s clean_scripts_object [OF d ni] W inner scripts outer
    by (simp add: cleanManifest_def property_def)
qed

text \<open>The manifest of the specification's example is cleaned as the specification says.\<close>

theorem manifest_rewrite_witness:
  "cleanManifest demo_manifest =
     Inr (JObj [(''scripts'', JObj [(''prepare'', JStr ''y''), (''build'', JStr ''x''), (''custom'', JStr ''z'')]),
                (''webDependencies'', JObj []),
                (''dependencies'', JObj [(''a'', JStr ''1'')]),
                (''devDependencies'', JObj [])])"
  using manifest_rewrite [of "[(''scripts'', JObj [(''build'', JStr ''x''), (''prepare'', JStr ''y''), (''custom'', JStr ''z'')]),
           (''dependencies'', JObj [(''a'', JStr ''1'')]),
           (''devDependencies'', JObj []),
           (''webDependencies'', JObj []),
           (''extraField'', JStr ''drop-me'')]" "[(''build'', JStr ''x''), (''prepare'', JStr ''y''), (''custom'', JStr ''z'')]"]
  by (simp add: demo_manifest_def retained_def well_known_def array_index_def is_digit_def)

text \<open>
  The claim as stated, for every manifest, fails twice: a manifest without \<open>scripts\<close>
  is not rewritten at all, and a script whose name is an array index is written before
  the well-known names.
\<close>

theorem manifest_rewrite_counterexample:
  "cleanManifest (JObj [(''dependencies'', JObj [(''a'', JStr ''1'')])]) = Inl TypeError \<and>
   cleanManifest (JObj [(''scripts'', JObj [(''1'', JStr ''a''), (''build'', JStr ''b'')])])
     = Inr (JObj [(''scripts'', JObj [(''1'', JStr ''a''), (''build'', JStr ''b'')])])"
  by (simp add: cleanManifest_def rest_of_def property_def well_known_def object_of_def
       define_property_def array_index_def is_digit_def dec_val_def stringify_props_def)

text \<open>
  C4. When the target directory resolves (the relative target is a string), exists on
  disk and \<open>force\<close> is not set, validation ends the process with exit status 1: the run
  is the trace of \<open>validateArgs\<close> alone, and none of its steps changes the disk (no
  directory is created, nothing is written, copied, deleted or installed); all it can
  hold are error messages and the version probes of yarn and pnpm.
\<close>

theorem existing_target_untouched:
  assumes "targetDirectoryRelative (yargs_argv w) = Some (JStr s)"
    and "existsSync w (path_resolve w (cwd w) s)"
    and "\<not> truthy (force (yargs_argv w))"
  shows "snd (validateArgs w) = Exit 1 \<and> run w = (fst (validateArgs w), Exited 1) \<and>
         filter mutating (fst (run w)) = []"
proof -
  have v: "snd (validateArgs w) = Exit 1"
    using assms by (rule validateArgs_existing)
  then have r: "run w = (fst (validateArgs w), Exited 1)"
    by (simp add: run_def)
  have "filter mutating (fst (validateArgs w)) = []"
    by (rule validateArgs_quiet) simp_all
  with v r show ?thesis by simp
qed

theorem existing_target_untouched_witness:
  "targetDirectoryRelative (yargs_argv existing_target_world) = Some (JStr ''./app'') \<and>
   existsSync existing_target_world
     (path_resolve existing_target_world (cwd existing_target_world) ''./app'') \<and>
   \<not> truthy (force (yargs_argv existing_target_world)) \<and>
   run existing_target_world =
     ([ConsoleError ''/home/me/app already exists. Use `--force` to overwrite this directory.''],
      Exited 1)"
proof -
  have t: "targetDirectoryRelative (yargs_argv existing_target_world) = Some (JStr ''./app'')"
    by (simp add: existing_target_world_def demo_world_def demo_args_def targetDirectoryRelative_def)
  have e: "existsSync existing_target_world
     (path_resolve existing_target_world (cwd existing_target_world) ''./app'')"
    by (simp add: existing_target_world_def demo_world_def)
  have f: "\<not> truthy (force (yargs_argv existing_target_world))"
    by (simp add: existing_target_world_def demo_world_def demo_args_def)
  have "fst (validateArgs existing_target_world) =
     [ConsoleError ''/home/me/app already exists. Use `--force` to overwrite this directory.'']"
    by (simp add: validateArgs_def Let_def existing_target_world_def demo_world_def demo_args_def
        targetDirectoryRelative_def resolve_def)
  with existing_target_untouched [OF t e f] t e f show ?thesis
    by simp
qed

text \<open>
  C5. For a remote template, once the run has reached the initialisation and has made
  the target directory and its placeholder manifest, it runs
  \<^verbatim>\<open>npm install <template> --ignore-scripts --loglevel <level>\<close> in the target
  directory, with the output captured (\<^verbatim>\<open>all: true\<close>) and the level \<open>verbose\<close> when the
  verbose flag is set, \<open>error\<close> otherwise. When this subprocess fails, the program
  prints the captured output (\<^verbatim>\<open>err.all\<close>) and throws the error again: the run ends
  there, rejected with that error, and copies nothing. When it succeeds, the next step
  is the copy out of \<^verbatim>\<open>node_modules/<template>\<close> of the target directory.
\<close>

theorem remote_template_install:
  assumes reach: "reaches_init w r" and remote: "\<not> isLocalTemplate (r_template r)"
    and mk: "fails w (MkdirSync (r_targetDirectory r)) = None"
    and wr: "fails w (WriteFile (path_join w [r_targetDirectory r, ''package.json''])
               (Text ''{\"name\": \"my-ndx-app\"}'')) = None"
  shows "let install =
           Execa ''npm''
             [''install'', r_template r, ''--ignore-scripts'', ''--loglevel'',
              if truthy (verbose (yargs_argv w)) then ''verbose'' else ''error'']
             (Some (r_targetDirectory r)) All
     in install \<in> set (fst (run w)) \<and>
        (fails w install = Some err \<longrightarrow>
           snd (run w) = Rejected err \<and>
           (\<exists>t. fst (run w) = t @ [install, ConsoleError (err_all err)]) \<and>
           filter is_copy (fst (run w)) = []) \<and>
        (fails w install = None \<longrightarrow>
           (\<exists>t t'. fst (run w) =
              t @ [install,
                   Copy (path_join w [r_targetDirectory r, ''node_modules'', r_template r])
                     (r_targetDirectory r)] @ t'))"
proof -
  from reach have "snd (validateArgs w) = Ret r"
    by (simp add: reaches_init_def)
  from validateArgs_Ret [OF this] have "r_verbose r = verbose (yargs_argv w)"
    by auto
  then have i: "Execa ''npm''
             [''install'', r_template r, ''--ignore-scripts'', ''--loglevel'',
              if truthy (verbose (yargs_argv w)) then ''verbose'' else ''error'']
             (Some (r_targetDirectory r)) All = template_install r"
    by (simp add: template_install_def)
  let ?pre = "fst (validateArgs w) @
      [ConsoleLog (''\<newline> '' @ intro), ConsoleLog ''Verifying template...''] @
      fst (verifyProjectTemplate w (isLocalTemplate (r_template r)) (r_template r)
             (installedTemplate w r))"
  have q: "filter is_copy ?pre = []"
    by (rule prefix_quiet) (simp_all add: keywords_query_def)
  have failed: "snd (run w) = Rejected err \<and>
           (\<exists>t. fst (run w) = t @ [template_install r, ConsoleError (err_all err)]) \<and>
           filter is_copy (fst (run w)) = []"
    if f: "fails w (template_install r) = Some err"
  proof -
    note init = initProject_remote(1) [OF remote mk wr f]
    have "fst (run w) = (?pre @ [ConsoleLog (''\<newline>Template: '' @ r_template r),
               ConsoleLog (''Target directory: '' @ r_targetDirectory r),
               MkdirSync (r_targetDirectory r),
               WriteFile (path_join w [r_targetDirectory r, ''package.json''])
                 (Text ''{\"name\": \"my-ndx-app\"}'')]) @
            [template_install r, ConsoleError (err_all err)]"
      by (simp add: run_reached [OF reach] init)
    moreover have "snd (run w) = Rejected err"
      by (simp add: run_reached [OF reach] init)
    moreover have "filter is_copy (fst (run w)) = []"
      using q by (simp add: run_reached [OF reach] init template_install_def)
    ultimately show ?thesis
      by blast
  qed
  have ok: "\<exists>t t'. fst (run w) =
              t @ [template_install r,
                   Copy (path_join w [r_targetDirectory r, ''node_modules'', r_template r])
                     (r_targetDirectory r)] @ t'"
    if f: "fails w (template_install r) = None"
  proof -
    from initProject_remote(2) [OF remote mk wr f] obtain t' where
      t': "fst (initProject w r) =
             [ConsoleLog (''\<newline>Template: '' @ r_template r),
              ConsoleLog (''Target directory: '' @ r_targetDirectory r),
              MkdirSync (r_targetDirectory r),
              WriteFile (path_join w [r_targetDirectory r, ''package.json''])
                (Text ''{\"name\": \"my-ndx-app\"}'')] @
             [template_install r,
              Copy (path_join w [r_targetDirectory r, ''node_modules'', r_template r])
                (r_targetDirectory r)] @ t'"
      by blast
    have "fst (run w) = (?pre @ [ConsoleLog (''\<newline>Template: '' @ r_template r),
              ConsoleLog (''Target directory: '' @ r_targetDirectory r),
              MkdirSync (r_targetDirectory r),
              WriteFile (path_join w [r_targetDirectory r, ''package.json''])
                (Text ''{\"name\": \"my-ndx-app\"}'')]) @
             [template_install r,
              Copy (path_join w [r_targetDirectory r, ''node_modules'', r_template r])
                (r_targetDirectory r)] @
             (t' @ (case snd (initProject w r) of Ret a \<Rightarrow> fst (installPackages w r)
                     | Exit n \<Rightarrow> [] | Throw e \<Rightarrow> []))"
      by (simp add: run_reached [OF reach] fst_seq t')
    then show ?thesis
      by blast
  qed
  have mem: "template_install r \<in> set (fst (run w))"
  proof (cases "fails w (template_install r)")
    case None
    from ok [OF None] show ?thesis by auto
  next
    case (Some e)
    have "fst (initProject w r) =
             [ConsoleLog (''\<newline>Template: '' @ r_template r),
               ConsoleLog (''Target directory: '' @ r_targetDirectory r),
               MkdirSync (r_targetDirectory r),
               WriteFile (path_join w [r_targetDirectory r, ''package.json''])
                 (Text ''{\"name\": \"my-ndx-app\"}''),
               template_install r, ConsoleError (err_all e)]"
      using initProject_remote(1) [OF remote mk wr Some] by simp
    then show ?thesis
      by (simp add: run_reached [OF reach] fst_seq)
  qed
  from mem failed ok show ?thesis
    unfolding Let_def i by blast
qed

theorem remote_template_install_witness:
  "reaches_init (demo_with ''18.12.0'' template_install_fails) demo_request \<and>
   \<not> isLocalTemplate (r_template demo_request) \<and>
   fails (demo_with ''18.12.0'' template_install_fails) (MkdirSync (r_targetDirectory demo_request)) = None \<and>
   fails (demo_with ''18.12.0'' template_install_fails)
     (WriteFile (path_join (demo_with ''18.12.0'' template_install_fails)
                   [r_targetDirectory demo_request, ''package.json''])
        (Text ''{\"name\": \"my-ndx-app\"}'')) = None \<and>
   fails (demo_with ''18.12.0'' template_install_fails)
     (Execa ''npm'' [''install'', ''@org/pkg'', ''--ignore-scripts'', ''--loglevel'', ''error'']
        (Some ''/home/me/app'') All) = Some (ExecaError ''npm ERR! code E404'') \<and>
   Execa ''npm'' [''install'', ''@org/pkg'', ''--ignore-scripts'', ''--loglevel'', ''error'']
        (Some ''/home/me/app'') All
     \<in> set (fst (run (demo_with ''18.12.0'' template_install_fails))) \<and>
   snd (run (demo_with ''18.12.0'' template_install_fails)) = Rejected (ExecaError ''npm ERR! code E404'') \<and>
   (\<exists>t. fst (run (demo_with ''18.12.0'' template_install_fails)) =
      t @ [Execa ''npm'' [''install'', ''@org/pkg'', ''--ignore-scripts'', ''--loglevel'', ''error'']
             (Some ''/home/me/app'') All,
           ConsoleError ''npm ERR! code E404'']) \<and>
   filter is_copy (fst (run (demo_with ''18.12.0'' template_install_fails))) = [] \<and>
   reaches_init demo_world demo_request \<and>
   fails demo_world (MkdirSync (r_targetDirectory demo_request)) = None \<and>
   fails demo_world
     (WriteFile (path_join demo_world [r_targetDirectory demo_request, ''package.json''])
        (Text ''{\"name\": \"my-ndx-app\"}'')) = None \<and>
   fails demo_world
     (Execa ''npm'' [''install'', ''@org/pkg'', ''--ignore-scripts'', ''--loglevel'', ''error'']
        (Some ''/home/me/app'') All) = None \<and>
   (\<exists>t t'. fst (run demo_world) =
      t @ [Execa ''npm'' [''install'', ''@org/pkg'', ''--ignore-scripts'', ''--loglevel'', ''error'']
             (Some ''/home/me/app'') All,
           Copy ''/home/me/app/node_modules/@org/pkg'' ''/home/me/app''] @ t')"
proof -
  let ?w = "demo_with ''18.12.0'' template_install_fails"
  have 1: "reaches_init ?w demo_request"
    by (rule demo_with_reaches) (simp_all add: template_install_fails_simps demo_with_18)
  have 2: "\<not> isLocalTemplate (r_template demo_request)"
    by (simp add: isLocalTemplate_def demo_request_def)
  have 3: "fails ?w (MkdirSync (r_targetDirectory demo_request)) = None"
    by (simp add: demo_with_def template_install_fails_simps)
  have 4: "fails ?w (WriteFile (path_join ?w [r_targetDirectory demo_request, ''package.json''])
        (Text ''{\"name\": \"my-ndx-app\"}'')) = None"
    by (simp add: demo_with_def template_install_fails_simps)
  have 5: "fails ?w (Execa ''npm'' [''install'', ''@org/pkg'', ''--ignore-scripts'', ''--loglevel'', ''error'']
        (Some ''/home/me/app'') All) = Some (ExecaError ''npm ERR! code E404'')"
    by (simp add: demo_with_def template_install_fails_simps)
  have 6: "r_template demo_request = ''@org/pkg''" "r_targetDirectory demo_request = ''/home/me/app''"
    "\<not> truthy (verbose (yargs_argv ?w))"
    by (simp_all add: demo_request_def demo_with_def demo_world_def demo_args_def)
  from remote_template_install [OF 1 2 3 4, of "ExecaError ''npm ERR! code E404''"] 5 6
  have "Execa ''npm'' [''install'', ''@org/pkg'', ''--ignore-scripts'', ''--loglevel'', ''error'']
        (Some ''/home/me/app'') All \<in> set (fst (run ?w)) \<and>
     snd (run ?w) = Rejected (ExecaError ''npm ERR! code E404'') \<and>
     (\<exists>t. fst (run ?w) =
        t @ [Execa ''npm'' [''install'', ''@org/pkg'', ''--ignore-scripts'', ''--loglevel'', ''error'']
             (Some ''/home/me/app'') All,
           ConsoleError ''npm ERR! code E404'']) \<and>
     filter is_copy (fst (run ?w)) = []"
    by (simp add: Let_def)
  note failing = this
  have 7: "fails demo_world x = None" for x
    by (simp add: demo_world_def)
  have 8: "\<not> truthy (verbose (yargs_argv demo_world))"
    "path_join demo_world [''/home/me/app'', ''node_modules'', ''@org/pkg'']
       = ''/home/me/app/node_modules/@org/pkg''"
    by (simp_all add: demo_world_def demo_args_def)
  from remote_template_install [OF demo_reaches 2 7 7] 6 7 8
  have "\<exists>t t'. fst (run demo_world) =
      t @ [Execa ''npm'' [''install'', ''@org/pkg'', ''--ignore-scripts'', ''--loglevel'', ''error'']
             (Some ''/home/me/app'') All,
           Copy ''/home/me/app/node_modules/@org/pkg'' ''/home/me/app''] @ t'"
    by (simp add: Let_def)
  with failing 1 2 3 4 5 7 demo_reaches show ?thesis
    by blast
qed

text \<open>
  C6. The claim: whenever the final install fails, the program ends with an exit status
  other than 0. The code does not do so in the run evaluated here: the example run on
  Node.js 12.22.1, which the version check accepts, where every step succeeds up to the
  final \<^verbatim>\<open>npm install --loglevel error\<close> and that subprocess fails. The run stops at the
  failed install and is not retried, but it ends neither in \<^verbatim>\<open>exit(1)\<close>, as every other
  failure the program detects does, nor in any handler: the promise of the main
  function is rejected with the error of the subprocess and nothing handles it. On this
  version of Node.js the exit status is then 0.
\<close>

theorem final_install_failure_unhandled:
  "fails (demo_with ''12.22.1'' final_install_fails)
     (Execa ''npm'' [''install'', ''--loglevel'', ''error''] (Some ''/home/me/app'') Inherit)
     = Some (ExecaError ''Command failed with exit code 1'') \<and>
   run (demo_with ''12.22.1'' final_install_fails) =
     ([ConsoleLog (''\<newline> '' @ intro), ConsoleLog ''Verifying template...'',
       keywords_query ''@org/pkg''] @ demo_init_prefix @
      [Execa ''npm'' [''install'', ''@org/pkg'', ''--ignore-scripts'', ''--loglevel'', ''error'']
         (Some ''/home/me/app'') All,
       Copy ''/home/me/app/node_modules/@org/pkg'' ''/home/me/app''] @ demo_clean_trace @
      [ConsoleLog ''\<newline>'', ConsoleLog ''Setting up packages...  this might take a minute'',
       Execa ''npm'' [''install'', ''--loglevel'', ''error''] (Some ''/home/me/app'') Inherit],
      Rejected (ExecaError ''Command failed with exit code 1'')) \<and>
   exit_status (demo_with ''12.22.1'' final_install_fails)
     (snd (run (demo_with ''12.22.1'' final_install_fails))) = 0"
proof -
  let ?w = "demo_with ''12.22.1'' final_install_fails"
  let ?e = "Execa ''npm'' [''install'', ''--loglevel'', ''error''] (Some ''/home/me/app'') Inherit"
  have 1: "reaches_init ?w demo_request"
    by (rule demo_with_reaches) (simp_all add: final_install_fails_simps demo_with_12)
  have 2: "initProject ?w demo_request =
     (demo_init_prefix @
      [Execa ''npm'' [''install'', ''@org/pkg'', ''--ignore-scripts'', ''--loglevel'', ''error'']
         (Some ''/home/me/app'') All,
       Copy ''/home/me/app/node_modules/@org/pkg'' ''/home/me/app''] @ demo_clean_trace, Ret ())"
    by (simp add: demo_with_initProject final_install_fails_simps)
  have 3: "fails ?w ?e = Some (ExecaError ''Command failed with exit code 1'')"
    by (simp add: demo_with_def final_install_fails_simps)
  have 4: "requiredMajorVersion ?w = Some 12"
    by (rule demo_with_12)
  have 5: "verifyProjectTemplate ?w (isLocalTemplate (r_template demo_request))
      (r_template demo_request) (installedTemplate ?w demo_request) = ([keywords_query ''@org/pkg''], Ret ())"
    by (simp add: demo_request_def isLocalTemplate_def demo_with_verify final_install_fails_simps)
  have "run ?w =
     ([ConsoleLog (''\<newline> '' @ intro), ConsoleLog ''Verifying template...'',
       keywords_query ''@org/pkg''] @ demo_init_prefix @
      [Execa ''npm'' [''install'', ''@org/pkg'', ''--ignore-scripts'', ''--loglevel'', ''error'']
         (Some ''/home/me/app'') All,
       Copy ''/home/me/app/node_modules/@org/pkg'' ''/home/me/app''] @ demo_clean_trace @
      [ConsoleLog ''\<newline>'', ConsoleLog ''Setting up packages...  this might take a minute'', ?e],
      Rejected (ExecaError ''Command failed with exit code 1''))"
    by (simp add: run_reached [OF 1] 2 5 installPackages_eq [OF demo_installProcess] 3
        demo_with_validateArgs)
  with 3 4 show ?thesis
    by (simp add: exit_status_def)
qed

text \<open>
  C7. Whenever the yarn flag and the pnpm flag are both set (both truthy in the parsed
  arguments), whatever the other flags and positional arguments are, the run consists
  of the one error message about the conflict and ends with exit status 1.
\<close>

theorem both_managers_rejected:
  assumes "truthy (useYarn (yargs_argv w))" and "truthy (usePnpm (yargs_argv w))"
  shows "run w = ([ConsoleError ''You cannot use yarn and pnpm at the same time.''], Exited 1)"
proof -
  have "validateArgs w = logError ''You cannot use yarn and pnpm at the same time.''"
    using assms by (simp add: validateArgs_def Let_def if_then_def)
  then show ?thesis
    by (simp add: run_def logError_eq)
qed

theorem both_managers_rejected_witness:
  "truthy (useYarn (yargs_argv both_managers_world)) \<and>
   truthy (usePnpm (yargs_argv both_managers_world)) \<and>
   run both_managers_world =
     ([ConsoleError ''You cannot use yarn and pnpm at the same time.''], Exited 1)"
  using both_managers_rejected [of both_managers_world]
  by (simp add: both_managers_world_def)

text \<open>
  C8. The template identifier is classified by its first character. An identifier that
  begins with \<open>.\<close> is a local path: the template is the directory it names, resolved
  against the working directory, and no run goes to the registry for it (no keywords
  query, no install of the template). Any other identifier is a registry package: the
  template is \<^verbatim>\<open>node_modules/<identifier>\<close> under the target directory, and a run that
  copies it has queried the registry for its keywords and has installed it there. In
  both cases every copy of a run is from that location into the target directory.
\<close>

theorem template_classification:
  assumes v: "snd (validateArgs w) = Ret r"
  shows "(isLocalTemplate (r_template r) \<longleftrightarrow> (\<exists>rest. r_template r = CHR ''.'' # rest)) \<and>
     (Copy src dst \<in> set (fst (run w)) \<longrightarrow>
        src = installedTemplate w r \<and> dst = r_targetDirectory r) \<and>
     (isLocalTemplate (r_template r) \<longrightarrow>
        installedTemplate w r = path_resolve w (cwd w) (r_template r) \<and>
        filter is_registry_call (fst (run w)) = []) \<and>
     (\<not> isLocalTemplate (r_template r) \<longrightarrow>
        installedTemplate w r = path_join w [r_targetDirectory r, ''node_modules'', r_template r] \<and>
        (Copy src dst \<in> set (fst (run w)) \<longrightarrow>
           Execa ''npm'' [''info'', r_template r, ''keywords'', ''--json''] None Piped
             \<in> set (fst (run w)) \<and>
           template_install r \<in> set (fst (run w)) \<and> fails w (template_install r) = None))"
proof (intro conjI impI)
  show "isLocalTemplate (r_template r) \<longleftrightarrow> (\<exists>rest. r_template r = CHR ''.'' # rest)"
    by (cases "r_template r") (auto simp: isLocalTemplate_def)
next
  assume c: "Copy src dst \<in> set (fst (run w))"
  from copy_reaches [OF v c] have "Copy src dst \<in> set (fst (initProject w r))"
    by simp
  from copy_in_initProject [OF this]
  show "src = installedTemplate w r" and "dst = r_targetDirectory r"
    by simp_all
next
  assume l: "isLocalTemplate (r_template r)"
  then show "installedTemplate w r = path_resolve w (cwd w) (r_template r)"
    by (simp add: installedTemplate_def)
  from l show "filter is_registry_call (fst (run w)) = []"
    by (rule local_run_quiet [OF v])
next
  assume n: "\<not> isLocalTemplate (r_template r)"
  then show "installedTemplate w r = path_join w [r_targetDirectory r, ''node_modules'', r_template r]"
    by (simp add: installedTemplate_def)
  assume c: "Copy src dst \<in> set (fst (run w))"
  from copy_reaches [OF v c] have reach: "reaches_init w r"
    and i: "Copy src dst \<in> set (fst (initProject w r))"
    by simp_all
  from copy_in_initProject [OF i] have f: "snd (fetchTemplate w r) = Ret ()"
    by simp
  with n have ok: "fails w (template_install r) = None"
    by (simp add: fetchTemplate_remote split: option.splits)
  then show "fails w (template_install r) = None" .
  from n ok have "template_install r \<in> set (fst (fetchTemplate w r))"
    by (simp add: fetchTemplate_remote)
  with i have "template_install r \<in> set (fst (initProject w r))"
    by (auto simp: initProject_def in_seq)
  then show "template_install r \<in> set (fst (run w))"
    by (simp add: run_reached [OF reach] fst_seq)
  from n remote_query_in_verify [of "r_template r" w "installedTemplate w r"]
  show "Execa ''npm'' [''info'', r_template r, ''keywords'', ''--json''] None Piped \<in> set (fst (run w))"
    by (simp add: run_reached [OF reach] keywords_query_def)
qed

theorem template_classification_witness:
  "snd (validateArgs demo_world) = Ret demo_request \<and>
   \<not> isLocalTemplate (r_template demo_request) \<and>
   Copy ''/home/me/app/node_modules/@org/pkg'' ''/home/me/app'' \<in> set (fst (run demo_world)) \<and>
   installedTemplate demo_world demo_request = ''/home/me/app/node_modules/@org/pkg'' \<and>
   Execa ''npm'' [''info'', ''@org/pkg'', ''keywords'', ''--json''] None Piped
     \<in> set (fst (run demo_world)) \<and>
   template_install demo_request \<in> set (fst (run demo_world)) \<and>
   snd (validateArgs local_world) = Ret local_request \<and>
   isLocalTemplate (r_template local_request) \<and>
   r_template local_request = ''./tpl'' \<and>
   installedTemplate local_world local_request = ''/home/me/tpl'' \<and>
   filter is_registry_call (fst (run local_world)) = []"
proof -
  have v: "snd (validateArgs demo_world) = Ret demo_request"
    using demo_validateArgs by (simp add: demo_request_def)
  have n: "\<not> isLocalTemplate (r_template demo_request)" "r_template demo_request = ''@org/pkg''"
    by (simp_all add: isLocalTemplate_def demo_request_def)
  have c: "Copy ''/home/me/app/node_modules/@org/pkg'' ''/home/me/app'' \<in> set (fst (run demo_world))"
    by (simp add: demo_run)
  have v': "snd (validateArgs local_world) = Ret local_request"
    by (simp add: local_validateArgs)
  have l: "isLocalTemplate (r_template local_request)" "r_template local_request = ''./tpl''"
    by (simp_all add: isLocalTemplate_def local_request_def)
  have p: "path_resolve local_world (cwd local_world) ''./tpl'' = ''/home/me/tpl''"
    by (simp add: local_world_def demo_world_def)
  from template_classification [OF v, of "''/home/me/app/node_modules/@org/pkg''" "''/home/me/app''"]
    n c
  have A: "installedTemplate demo_world demo_request = ''/home/me/app/node_modules/@org/pkg'' \<and>
      Execa ''npm'' [''info'', ''@org/pkg'', ''keywords'', ''--json''] None Piped
        \<in> set (fst (run demo_world)) \<and>
      template_install demo_request \<in> set (fst (run demo_world))"
    by auto
  from template_classification [OF v'] l p
  have B: "installedTemplate local_world local_request = ''/home/me/tpl'' \<and>
      filter is_registry_call (fst (run local_world)) = []"
    by auto
  from A B v n c v' l show ?thesis
    by blast
qed

text \<open>
  C9. For valid arguments, the command of the final install is determined by the
  package-manager flags and the verbose flag as in the table: \<^verbatim>\<open>yarn --verbose\<close> or
  \<^verbatim>\<open>yarn --silent\<close> with the yarn flag, \<^verbatim>\<open>pnpm install --reporter=default\<close> or
  \<^verbatim>\<open>--reporter=silent\<close> with the pnpm flag, \<^verbatim>\<open>npm install --loglevel verbose\<close> or
  \<^verbatim>\<open>--loglevel error\<close> otherwise, run in the target directory with the terminal
  inherited. Every final install of a run is this command, and a run that has
  initialised the project performs it exactly once.
\<close>

theorem install_command_mapping:
  assumes "snd (validateArgs w) = Ret r"
  shows "let command =
          (if truthy (useYarn (yargs_argv w)) then
             Execa ''yarn'' [if truthy (verbose (yargs_argv w)) then ''--verbose'' else ''--silent'']
               (Some (r_targetDirectory r)) Inherit
           else if truthy (usePnpm (yargs_argv w)) then
             Execa ''pnpm''
               [''install'',
                ''--reporter='' @ (if truthy (verbose (yargs_argv w)) then ''default'' else ''silent'')]
               (Some (r_targetDirectory r)) Inherit
           else
             Execa ''npm''
               [''install'', ''--loglevel'',
                if truthy (verbose (yargs_argv w)) then ''verbose'' else ''error'']
               (Some (r_targetDirectory r)) Inherit)
     in (e \<in> set (fst (run w)) \<and> is_final_install e \<longrightarrow> e = command) \<and>
        (reaches_init w r \<and> snd (initProject w r) = Ret () \<longrightarrow>
           filter is_final_install (fst (run w)) = [command])"
proof -
  from validateArgs_Ret [OF assms] have f:
    "r_useYarn r = useYarn (yargs_argv w)" "r_usePnpm r = usePnpm (yargs_argv w)"
    "r_verbose r = verbose (yargs_argv w)"
    by auto
  let ?command = "if truthy (useYarn (yargs_argv w)) then
             Execa ''yarn'' [if truthy (verbose (yargs_argv w)) then ''--verbose'' else ''--silent'']
               (Some (r_targetDirectory r)) Inherit
           else if truthy (usePnpm (yargs_argv w)) then
             Execa ''pnpm''
               [''install'',
                ''--reporter='' @ (if truthy (verbose (yargs_argv w)) then ''default'' else ''silent'')]
               (Some (r_targetDirectory r)) Inherit
           else
             Execa ''npm''
               [''install'', ''--loglevel'',
                if truthy (verbose (yargs_argv w)) then ''verbose'' else ''error'']
               (Some (r_targetDirectory r)) Inherit"
  have c: "installProcess r (installer r) = Inr ?command"
    using f by (simp add: installProcess_def installer_def)
  have 1: "e \<in> set (fst (run w)) \<and> is_final_install e \<longrightarrow> e = ?command"
    using final_install_in_run [OF assms, of e] c by auto
  have 2: "reaches_init w r \<and> snd (initProject w r) = Ret () \<longrightarrow>
           filter is_final_install (fst (run w)) = [?command]"
    using final_install_once [of w r ?command] c by blast
  from 1 2 show ?thesis
    unfolding Let_def by (rule conjI)
qed

theorem install_command_mapping_witness:
  "snd (validateArgs demo_world) = Ret demo_request \<and>
   Execa ''npm'' [''install'', ''--loglevel'', ''error''] (Some ''/home/me/app'') Inherit
     \<in> set (fst (run demo_world)) \<and>
   is_final_install (Execa ''npm'' [''install'', ''--loglevel'', ''error''] (Some ''/home/me/app'') Inherit) \<and>
   reaches_init demo_world demo_request \<and>
   snd (initProject demo_world demo_request) = Ret () \<and>
   \<not> truthy (useYarn (yargs_argv demo_world)) \<and> \<not> truthy (usePnpm (yargs_argv demo_world)) \<and>
   \<not> truthy (verbose (yargs_argv demo_world)) \<and>
   filter is_final_install (fst (run demo_world)) =
     [Execa ''npm'' [''install'', ''--loglevel'', ''error''] (Some (r_targetDirectory demo_request)) Inherit]"
proof -
  have v: "snd (validateArgs demo_world) = Ret demo_request"
    using demo_validateArgs by (simp add: demo_request_def)
  have m: "Execa ''npm'' [''install'', ''--loglevel'', ''error''] (Some ''/home/me/app'') Inherit
     \<in> set (fst (run demo_world))"
    by (simp add: demo_run)
  have r: "reaches_init demo_world demo_request"
    by (rule demo_reaches)
  have i: "snd (initProject demo_world demo_request) = Ret ()"
    by (simp add: demo_initProject)
  have a: "\<not> truthy (useYarn (yargs_argv demo_world))" "\<not> truthy (usePnpm (yargs_argv demo_world))"
    "\<not> truthy (verbose (yargs_argv demo_world))"
    by (simp_all add: demo_world_def demo_args_def)
  from install_command_mapping [OF v, of "Execa ''npm'' [''install'', ''--loglevel'', ''error''] (Some ''/home/me/app'') Inherit"]
    v m r i a
  show ?thesis
    by (simp add: Let_def)
qed

text \<open>
  C10. When the manifest of the target has no \<open>scripts\<close> field (reading it gives
  \<open>undefined\<close>), the rewrite throws a \<open>TypeError\<close> in the second destructuring:
  \<open>cleanProject\<close> never returns and never writes the manifest. The five deletions come
  first; when they succeed, they are all that \<open>cleanProject\<close> did.
\<close>

theorem scripts_required:
  assumes "get_prop (Some manifest) ''scripts'' = Inr None"
  shows "cleanManifest manifest = Inl TypeError \<and>
    (require_target w (path_join w [dir, ''package.json'']) = Inr manifest \<longrightarrow>
       filter is_write (fst (cleanProject w dir)) = [] \<and>
       (\<exists>e. snd (cleanProject w dir) = Throw e) \<and>
       ((\<forall>p\<in>set [''package-lock.json'', ''node_modules'', ''.gitignore'', ''.npmignore'', ''LICENSE''].
           fails w (RemoveSync (path_join w [dir, p])) = None) \<longrightarrow>
        cleanProject w dir =
          (map (\<lambda>p. RemoveSync (path_join w [dir, p]))
             [''package-lock.json'', ''node_modules'', ''.gitignore'', ''.npmignore'', ''LICENSE''],
           Throw TypeError)))"
  using cleanManifest_no_scripts [OF assms]
    cleanProject_quiet_write [of w dir manifest TypeError]
    cleanProject_throws [of w dir manifest TypeError]
    cleanProject_TypeError [of w dir manifest TypeError]
  by blast

theorem scripts_required_witness:
  "get_prop (Some (JObj [(''dependencies'', JObj [(''a'', JStr ''1'')])])) ''scripts'' = Inr None \<and>
   cleanManifest (JObj [(''dependencies'', JObj [(''a'', JStr ''1'')])]) = Inl TypeError \<and>
   require_target no_scripts_world (path_join no_scripts_world [''/home/me/app'', ''package.json''])
     = Inr (JObj [(''dependencies'', JObj [(''a'', JStr ''1'')])]) \<and>
   cleanProject no_scripts_world ''/home/me/app'' =
     ([RemoveSync ''/home/me/app/package-lock.json'', RemoveSync ''/home/me/app/node_modules'',
       RemoveSync ''/home/me/app/.gitignore'', RemoveSync ''/home/me/app/.npmignore'',
       RemoveSync ''/home/me/app/LICENSE''], Throw TypeError)"
  using scripts_required [of "JObj [(''dependencies'', JObj [(''a'', JStr ''1'')])]" no_scripts_world "''/home/me/app''"]
  by (simp add: no_scripts_world_def demo_world_def)

end
